theory Spec2Isabelle
  imports Complex_Main
begin

section \<open>Data model of the Q-vector table producer\<close>

text \<open>
  The embedding follows \<^verbatim>\<open>Common/TableProducer/qVectorsTable.cxx\<close> (struct
  \<^verbatim>\<open>qVectorsTable\<close>) and \<^verbatim>\<open>PWGCF/JCorran/Tasks/jflucWeightsLoader.cxx\<close>.

  Numbers: every C++ \<^verbatim>\<open>float\<close>/\<^verbatim>\<open>double\<close> is a \<^typ>\<open>real\<close> and arithmetic on them is
  exact, with one exception: the four amplitude sums of \<^verbatim>\<open>CalQvec\<close> are single-precision
  variables that the accumulator of the helper adds to, channel by channel, next to a
  double-precision Q-vector. The model of the accumulator rounds each of these additions
  with a rounding function that it takes as a parameter (section \<open>The accumulator of the
  helper\<close>). Infinities and NaN are outside the model, and so is the division by a gain
  factor 0: the specification takes gain factors to be positive, and the theorems about
  corrected amplitudes assume it (\<open>gainsPositive\<close>). \<^verbatim>\<open>TComplex\<close> is \<^typ>\<open>complex\<close>. Channel
  numbers (\<^verbatim>\<open>uint8_t\<close> in the tables), counters and container indices are \<^typ>\<open>nat\<close>.

  Failures are values: \<^verbatim>\<open>LOGF(fatal, ...)\<close> is \<open>Fatal\<close>, a call through a null
  histogram pointer is \<open>NullPointer\<close>, and an index outside a container
  (\<^verbatim>\<open>std::vector::at\<close> throwing, or \<^verbatim>\<open>operator[]\<close> reading past the end) is
  \<open>OutOfRange\<close>. The QA histogram fills have no effect on any table and are left out.
\<close>

datatype error = Fatal | NullPointer | OutOfRange

definition bindE :: "error + 'a \<Rightarrow> ('a \<Rightarrow> error + 'b) \<Rightarrow> error + 'b" where
  "bindE m f = (case m of Inl e \<Rightarrow> Inl e | Inr x \<Rightarrow> f x)"

definition atE :: "'a list \<Rightarrow> nat \<Rightarrow> error + 'a" where
  "atE xs i = (if i < length xs then Inr (xs ! i) else Inl OutOfRange)"

text \<open>A counted \<^verbatim>\<open>for\<close> loop whose body may fail: the indices are visited in order and
  the first failure ends the loop.\<close>

fun forLoop :: "(nat \<Rightarrow> 's \<Rightarrow> error + 's) \<Rightarrow> nat list \<Rightarrow> 's \<Rightarrow> error + 's" where
  "forLoop body [] s = Inr s"
| "forLoop body (i # rest) s =
     (case body i s of Inl e \<Rightarrow> Inl e | Inr s' \<Rightarrow> forLoop body rest s')"

text \<open>The enum of sub-systems: \<^verbatim>\<open>kFT0C = 0, kFT0A = 1, kFT0M, kFV0A, kBPos, kBNeg\<close>.\<close>

definition kFT0C :: nat where "kFT0C = 0"
definition kFT0A :: nat where "kFT0A = 1"
definition kFT0M :: nat where "kFT0M = 2"
definition kFV0A :: nat where "kFV0A = 3"
definition kBPos :: nat where "kBPos = 4"
definition kBNeg :: nat where "kBNeg = 5"

text \<open>\<^verbatim>\<open>TH3F::GetBinContent(binx, biny, binz)\<close> of a calibration histogram.\<close>

type_synonym TH3F = "int \<Rightarrow> int \<Rightarrow> int \<Rightarrow> real"

text \<open>
  \<^verbatim>\<open>EventPlaneHelper\<close> (\<^verbatim>\<open>Common/Core/EventPlaneHelper.h\<close>) is not among the sources.
  Its four methods used here are parameters of the model; each takes the values of its
  reference arguments and returns their new values:
  \<^item> \<open>SumQvectors det iCh ampl nmod (Qvec, sum)\<close>,
  \<^item> \<open>DoRecenter (qx, qy) x0 y0\<close>, \<open>DoTwist (qx, qy) a b\<close>, \<open>DoRescale (qx, qy) a b\<close>.
  The detector offsets that \<^verbatim>\<open>initCCDB\<close> hands to the helper only change the geometry
  inside \<open>SumQvectors\<close>, which is part of the parameter.
\<close>

record EventPlaneHelper =
  SumQvectors :: "nat \<Rightarrow> nat \<Rightarrow> real \<Rightarrow> int \<Rightarrow> complex \<times> real \<Rightarrow> complex \<times> real"
  DoRecenter :: "real \<times> real \<Rightarrow> real \<Rightarrow> real \<Rightarrow> real \<times> real"
  DoTwist :: "real \<times> real \<Rightarrow> real \<Rightarrow> real \<Rightarrow> real \<times> real"
  DoRescale :: "real \<times> real \<Rightarrow> real \<Rightarrow> real \<Rightarrow> real \<times> real"

record FT0 =
  channelA :: "nat list"
  amplitudeA :: "real list"
  channelC :: "nat list"
  amplitudeC :: "real list"

record FV0 =
  channel :: "nat list"
  amplitude :: "real list"

text \<open>A collision with the columns the task reads; \<open>foundFT0 = None\<close> is
  \<^verbatim>\<open>!coll.has_foundFT0()\<close>. \<open>bcRunNumber\<close> and \<open>bcTimestamp\<close> are those of its bunch
  crossing.\<close>

record Collision =
  foundFT0 :: "FT0 option"
  foundFV0 :: "FV0 option"
  centFT0M :: real
  centFT0A :: real
  centFT0C :: real
  centFV0A :: real
  bcRunNumber :: int
  bcTimestamp :: nat

record Track =
  pt :: real
  eta :: real
  phi :: real
  passedITSNCls :: bool
  passedITSChi2NDF :: bool
  passedITSHits :: bool
  passedTPCCrossedRowsOverNCls :: bool
  passedTPCChi2NDF :: bool
  passedDCAxy :: bool
  passedDCAz :: bool
  globalIndex :: int

text \<open>The configurables, and the map \<^verbatim>\<open>useDetector\<close> that \<^verbatim>\<open>init\<close> fills from the
  workflow's subscribed tables (a table name gives whether the sub-system is in use).
  \<open>cfgCentEsti\<close> selects one of four centrality values.\<close>

record Config =
  cfgCentEsti :: nat
  cfgMinPtOnTPC :: real
  cfgMaxPtOnTPC :: real
  cfgnMods :: "int list"
  useDetector :: "string \<Rightarrow> bool"

text \<open>The conditions database at a timestamp. The calibration histogram stored under
  \<^verbatim>\<open>cfgQvecCalibPath + "/v" + std::to_string(ind)\<close> is \<open>qvecCalib ind\<close>, so the path
  \<^verbatim>\<open>cfgQvecCalibPath + "/v2"\<close> is \<open>qvecCalib 2\<close>. \<open>None\<close> is the null pointer the
  manager returns for a missing object (\<^verbatim>\<open>setFatalWhenNull(false)\<close>).\<close>

record CCDB =
  alignFT0 :: "nat \<Rightarrow> (real \<times> real) list option"
  alignFV0 :: "nat \<Rightarrow> (real \<times> real) list option"
  qvecCalib :: "int \<Rightarrow> nat \<Rightarrow> TH3F option"
  gainFT0 :: "nat \<Rightarrow> real list option"
  gainFV0 :: "nat \<Rightarrow> real list option"

text \<open>The members of the task that live from event to event.\<close>

record RunState =
  runNumber :: int
  FT0RelGainConst :: "real list"
  FV0RelGainConst :: "real list"
  objQvec :: "TH3F option list"

section \<open>initCCDB\<close>

text \<open>The alignment vectors are read at positions 0 and 1 and passed to the helper;
  the model keeps the two conditions under which the function does not return: a missing
  object (fatal) and a vector with fewer than two entries.\<close>

definition initCCDB :: "Config \<Rightarrow> CCDB \<Rightarrow> nat \<Rightarrow> RunState \<Rightarrow> error + RunState" where
  "initCCDB cfg ccdb timestamp st =
     (case alignFT0 ccdb timestamp of
        None \<Rightarrow> Inl Fatal
      | Some offsetFT0 \<Rightarrow>
     if length offsetFT0 < 2 then Inl OutOfRange else
     (case alignFV0 ccdb timestamp of
        None \<Rightarrow> Inl Fatal
      | Some offsetFV0 \<Rightarrow>
     if length offsetFV0 < 2 then Inl OutOfRange else
       Inr (st\<lparr>
        objQvec := map (\<lambda>ind. case qvecCalib ccdb ind timestamp of
                                 None \<Rightarrow> qvecCalib ccdb 2 timestamp
                               | Some objqvec \<Rightarrow> Some objqvec) (cfgnMods cfg),
        FT0RelGainConst := (case gainFT0 ccdb timestamp of
                              None \<Rightarrow> replicate 208 1
                            | Some objft0Gain \<Rightarrow> objft0Gain),
        FV0RelGainConst := (case gainFV0 ccdb timestamp of
                              None \<Rightarrow> replicate 48 1
                            | Some objfv0Gain \<Rightarrow> objfv0Gain)\<rparr>)))"

section \<open>SelTrack and CalQvec\<close>

definition SelTrack :: "Config \<Rightarrow> Track \<Rightarrow> bool" where
  "SelTrack cfg track =
     (if pt track < cfgMinPtOnTPC cfg then False
      else if pt track > cfgMaxPtOnTPC cfg then False
      else if \<not> passedITSNCls track then False
      else if \<not> passedITSChi2NDF track then False
      else if \<not> passedITSHits track then False
      else if \<not> passedTPCCrossedRowsOverNCls track then False
      else if \<not> passedTPCChi2NDF track then False
      else if \<not> passedDCAxy track then False
      else if \<not> passedDCAz track then False
      else True)"

text \<open>The local variables of \<^verbatim>\<open>CalQvec\<close>. A two-element array \<^verbatim>\<open>qVectX[2]\<close> is a pair
  (real part, imaginary part). \<open>TrkBPosLabel\<close> and \<open>TrkBNegLabel\<close> hold what this call
  has pushed so far onto the label vectors it received by reference; \<open>pushQvec\<close> below
  puts them behind the labels that were there before the call.\<close>

record Locals =
  qVectFT0A :: "real \<times> real"
  qVectFT0C :: "real \<times> real"
  qVectFT0M :: "real \<times> real"
  qVectFV0A :: "real \<times> real"
  qVectBPos :: "real \<times> real"
  qVectBNeg :: "real \<times> real"
  QvecDet :: complex
  QvecFT0M :: complex
  sumAmplFT0A :: real
  sumAmplFT0C :: real
  sumAmplFT0M :: real
  sumAmplFV0A :: real
  nTrkBPos :: nat
  nTrkBNeg :: nat
  TrkBPosLabel :: "int list"
  TrkBNegLabel :: "int list"

text \<open>The loop over the A-side channels: one channel feeds both the FT0A and the FT0M
  accumulators.\<close>

definition ft0aBody :: "EventPlaneHelper \<Rightarrow> real list \<Rightarrow> int \<Rightarrow> FT0 \<Rightarrow> nat \<Rightarrow> Locals \<Rightarrow> error + Locals" where
  "ft0aBody h gain nmode ft0 iChA l =
     bindE (atE (amplitudeA ft0) iChA) (\<lambda>ampl.
     bindE (atE (channelA ft0) iChA) (\<lambda>FT0AchId.
     bindE (atE gain FT0AchId) (\<lambda>g.
       let (qd, sa) = SumQvectors h 0 FT0AchId (ampl / g) nmode (QvecDet l, sumAmplFT0A l);
           (qm, sm) = SumQvectors h 0 FT0AchId (ampl / g) nmode (QvecFT0M l, sumAmplFT0M l)
       in Inr (l\<lparr>QvecDet := qd, sumAmplFT0A := sa, QvecFT0M := qm, sumAmplFT0M := sm\<rparr>))))"

definition ft0cBody :: "EventPlaneHelper \<Rightarrow> real list \<Rightarrow> int \<Rightarrow> FT0 \<Rightarrow> nat \<Rightarrow> Locals \<Rightarrow> error + Locals" where
  "ft0cBody h gain nmode ft0 iChC l =
     bindE (atE (amplitudeC ft0) iChC) (\<lambda>ampl.
     bindE (atE (channelC ft0) iChC) (\<lambda>c.
       let FT0CchId = c + 96 in
     bindE (atE gain FT0CchId) (\<lambda>g.
       let (qd, sc) = SumQvectors h 0 FT0CchId (ampl / g) nmode (QvecDet l, sumAmplFT0C l);
           (qm, sm) = SumQvectors h 0 FT0CchId (ampl / g) nmode (QvecFT0M l, sumAmplFT0M l)
       in Inr (l\<lparr>QvecDet := qd, sumAmplFT0C := sc, QvecFT0M := qm, sumAmplFT0M := sm\<rparr>))))"

definition fv0Body :: "EventPlaneHelper \<Rightarrow> real list \<Rightarrow> int \<Rightarrow> FV0 \<Rightarrow> nat \<Rightarrow> Locals \<Rightarrow> error + Locals" where
  "fv0Body h gain nmode fv0 iCh l =
     bindE (atE (amplitude fv0) iCh) (\<lambda>ampl.
     bindE (atE (channel fv0) iCh) (\<lambda>FV0AchId.
     bindE (atE gain FV0AchId) (\<lambda>g.
       let (qd, sv) = SumQvectors h 1 FV0AchId (ampl / g) nmode (QvecDet l, sumAmplFV0A l)
       in Inr (l\<lparr>QvecDet := qd, sumAmplFV0A := sv\<rparr>))))"

text \<open>Lines 282 to 347: the FT0 block.\<close>

definition ft0aPart :: "Config \<Rightarrow> EventPlaneHelper \<Rightarrow> RunState \<Rightarrow> int \<Rightarrow> FT0 \<Rightarrow> Locals \<Rightarrow> error + Locals" where
  "ft0aPart cfg h st nmode ft0 l =
     (if useDetector cfg ''QvectorFT0As'' then
        bindE (forLoop (ft0aBody h (FT0RelGainConst st) nmode ft0) [0..<length (channelA ft0)] l) (\<lambda>l.
          if sumAmplFT0A l > 1 / 10 ^ 8 then
            let q = QvecDet l / of_real (sumAmplFT0A l)
            in Inr (l\<lparr>QvecDet := q, qVectFT0A := (Re q, Im q)\<rparr>)
          else Inr l)
      else Inr (l\<lparr>qVectFT0A := (999, 999)\<rparr>))"

definition ft0cPart :: "Config \<Rightarrow> EventPlaneHelper \<Rightarrow> RunState \<Rightarrow> int \<Rightarrow> FT0 \<Rightarrow> Locals \<Rightarrow> error + Locals" where
  "ft0cPart cfg h st nmode ft0 l =
     (if useDetector cfg ''QvectorFT0Cs'' then
        bindE (forLoop (ft0cBody h (FT0RelGainConst st) nmode ft0) [0..<length (channelC ft0)]
                 (l\<lparr>QvecDet := 0\<rparr>)) (\<lambda>l.
          if sumAmplFT0C l > 1 / 10 ^ 8 then
            let q = QvecDet l / of_real (sumAmplFT0C l)
            in Inr (l\<lparr>QvecDet := q, qVectFT0C := (Re q, Im q)\<rparr>)
          else Inr (l\<lparr>qVectFT0C := (999, 999)\<rparr>))
      else Inr (l\<lparr>qVectFT0C := (- 999, - 999)\<rparr>))"

definition ft0mPart :: "Config \<Rightarrow> Locals \<Rightarrow> Locals" where
  "ft0mPart cfg l =
     (if sumAmplFT0M l > 1 / 10 ^ 8 \<and> useDetector cfg ''QvectorFT0Ms'' then
        let q = QvecFT0M l / of_real (sumAmplFT0M l)
        in l\<lparr>QvecFT0M := q, qVectFT0M := (Re q, Im q)\<rparr>
      else l\<lparr>qVectFT0M := (999, 999)\<rparr>)"

definition ft0Block :: "Config \<Rightarrow> EventPlaneHelper \<Rightarrow> RunState \<Rightarrow> int \<Rightarrow> Collision \<Rightarrow> Locals \<Rightarrow> error + Locals" where
  "ft0Block cfg h st nmode coll l =
     (case foundFT0 coll of
        Some ft0 \<Rightarrow>
          if useDetector cfg ''QvectorFT0As'' \<or> useDetector cfg ''QvectorFT0Cs''
               \<or> useDetector cfg ''QvectorFT0Ms'' then
            bindE (ft0aPart cfg h st nmode ft0 l) (\<lambda>l.
            bindE (ft0cPart cfg h st nmode ft0 l) (\<lambda>l.
              Inr (ft0mPart cfg l)))
          else Inr (l\<lparr>qVectFT0A := (- 999, - 999), qVectFT0C := (- 999, - 999),
                       qVectFT0M := (- 999, - 999)\<rparr>)
      | None \<Rightarrow> Inr (l\<lparr>qVectFT0A := (- 999, - 999), qVectFT0C := (- 999, - 999),
                         qVectFT0M := (- 999, - 999)\<rparr>))"

text \<open>Lines 349 to 374: the FV0 block.\<close>

definition fv0Block :: "Config \<Rightarrow> EventPlaneHelper \<Rightarrow> RunState \<Rightarrow> int \<Rightarrow> Collision \<Rightarrow> Locals \<Rightarrow> error + Locals" where
  "fv0Block cfg h st nmode coll l0 =
     (let l = l0\<lparr>QvecDet := 0, sumAmplFV0A := 0\<rparr> in
      case foundFV0 coll of
        Some fv0 \<Rightarrow>
          if useDetector cfg ''QvectorFV0As'' then
            bindE (forLoop (fv0Body h (FV0RelGainConst st) nmode fv0) [0..<length (channel fv0)] l) (\<lambda>l.
              if sumAmplFV0A l > 1 / 10 ^ 8 then
                let q = QvecDet l / of_real (sumAmplFV0A l)
                in Inr (l\<lparr>QvecDet := q, qVectFV0A := (Re q, Im q)\<rparr>)
              else Inr (l\<lparr>qVectFV0A := (999, 999)\<rparr>))
          else Inr (l\<lparr>qVectFV0A := (- 999, - 999)\<rparr>)
      | None \<Rightarrow> Inr (l\<lparr>qVectFV0A := (- 999, - 999)\<rparr>))"

text \<open>Lines 379 to 398: the loop over the tracks.\<close>

fun trackLoop :: "Config \<Rightarrow> int \<Rightarrow> Track list \<Rightarrow> Locals \<Rightarrow> Locals" where
  "trackLoop cfg nmode [] l = l"
| "trackLoop cfg nmode (trk # rest) l =
     (if \<not> SelTrack cfg trk then trackLoop cfg nmode rest l
      else if \<bar>eta trk\<bar> < 0.1 \<or> \<bar>eta trk\<bar> > 0.8 then trackLoop cfg nmode rest l
      else if eta trk > 0 \<and> useDetector cfg ''QvectorBPoss'' then
        trackLoop cfg nmode rest
          (l\<lparr>qVectBPos := (fst (qVectBPos l) + pt trk * cos (phi trk * of_int nmode),
                           snd (qVectBPos l) + pt trk * sin (phi trk * of_int nmode)),
             TrkBPosLabel := TrkBPosLabel l @ [globalIndex trk],
             nTrkBPos := nTrkBPos l + 1\<rparr>)
      else if eta trk < 0 \<and> useDetector cfg ''QvectorBNegs'' then
        trackLoop cfg nmode rest
          (l\<lparr>qVectBNeg := (fst (qVectBNeg l) + pt trk * cos (phi trk * of_int nmode),
                           snd (qVectBNeg l) + pt trk * sin (phi trk * of_int nmode)),
             TrkBNegLabel := TrkBNegLabel l @ [globalIndex trk],
             nTrkBNeg := nTrkBNeg l + 1\<rparr>)
      else trackLoop cfg nmode rest l)"

text \<open>Lines 400 to 414: the mean over the members of each track sub-event.\<close>

definition normTracks :: "Locals \<Rightarrow> Locals" where
  "normTracks l =
     (let l1 = (if nTrkBPos l > 0
                then l\<lparr>qVectBPos := (fst (qVectBPos l) / real (nTrkBPos l),
                                      snd (qVectBPos l) / real (nTrkBPos l))\<rparr>
                else l\<lparr>qVectBPos := (999, 999)\<rparr>)
      in if nTrkBNeg l1 > 0
         then l1\<lparr>qVectBNeg := (fst (qVectBNeg l1) / real (nTrkBNeg l1),
                                snd (qVectBNeg l1) / real (nTrkBNeg l1))\<rparr>
         else l1\<lparr>qVectBNeg := (999, 999)\<rparr>)"

text \<open>The five vectors \<^verbatim>\<open>CalQvec\<close> receives by reference and appends to.\<close>

record QvecArrays =
  QvecRe :: "real list"
  QvecIm :: "real list"
  QvecAmp :: "real list"
  PosLabel :: "int list"
  NegLabel :: "int list"

definition initLocals :: Locals where
  "initLocals =
     \<lparr>qVectFT0A = (0, 0), qVectFT0C = (0, 0), qVectFT0M = (0, 0), qVectFV0A = (0, 0),
      qVectBPos = (0, 0), qVectBNeg = (0, 0), QvecDet = 0, QvecFT0M = 0,
      sumAmplFT0A = 0, sumAmplFT0C = 0, sumAmplFT0M = 0, sumAmplFV0A = 0,
      nTrkBPos = 0, nTrkBNeg = 0, TrkBPosLabel = [], TrkBNegLabel = []\<rparr>"

text \<open>Lines 416 to 446: four copies of each Q-vector and one amplitude per sub-system.\<close>

definition pushQvec :: "Locals \<Rightarrow> QvecArrays \<Rightarrow> QvecArrays" where
  "pushQvec l a =
     \<lparr>QvecRe = QvecRe a @ replicate 4 (fst (qVectFT0C l)) @ replicate 4 (fst (qVectFT0A l))
                 @ replicate 4 (fst (qVectFT0M l)) @ replicate 4 (fst (qVectFV0A l))
                 @ replicate 4 (fst (qVectBPos l)) @ replicate 4 (fst (qVectBNeg l)),
      QvecIm = QvecIm a @ replicate 4 (snd (qVectFT0C l)) @ replicate 4 (snd (qVectFT0A l))
                 @ replicate 4 (snd (qVectFT0M l)) @ replicate 4 (snd (qVectFV0A l))
                 @ replicate 4 (snd (qVectBPos l)) @ replicate 4 (snd (qVectBNeg l)),
      QvecAmp = QvecAmp a @ [sumAmplFT0C l, sumAmplFT0A l, sumAmplFT0M l, sumAmplFV0A l,
                             real (nTrkBPos l), real (nTrkBNeg l)],
      PosLabel = PosLabel a @ TrkBPosLabel l,
      NegLabel = NegLabel a @ TrkBNegLabel l\<rparr>"

text \<open>The values of the local variables when \<^verbatim>\<open>CalQvec\<close> reaches line 416.\<close>

definition CalQvecLocals :: "Config \<Rightarrow> EventPlaneHelper \<Rightarrow> RunState \<Rightarrow> int \<Rightarrow> Collision \<Rightarrow> Track list \<Rightarrow> error + Locals" where
  "CalQvecLocals cfg h st nmode coll track =
     bindE (ft0Block cfg h st nmode coll initLocals) (\<lambda>l.
     bindE (fv0Block cfg h st nmode coll l) (\<lambda>l.
       Inr (normTracks (trackLoop cfg nmode track l))))"

definition CalQvec :: "Config \<Rightarrow> EventPlaneHelper \<Rightarrow> RunState \<Rightarrow> int \<Rightarrow> Collision \<Rightarrow> Track list \<Rightarrow> QvecArrays \<Rightarrow> error + QvecArrays" where
  "CalQvec cfg h st nmode coll track a =
     bindE (CalQvecLocals cfg h st nmode coll track) (\<lambda>l. Inr (pushQvec l a))"

section \<open>process\<close>

text \<open>\<^verbatim>\<open>static_cast<int>(cent)\<close>: the fractional part is dropped (rounding towards 0).\<close>

definition static_cast_int :: "real \<Rightarrow> int" where
  "static_cast_int x = (if x \<ge> 0 then \<lfloor>x\<rfloor> else \<lceil>x\<rceil>)"

text \<open>A helper call \<^verbatim>\<open>f(qvecRe[idx], qvecIm[idx], ...)\<close> on two array elements passed by
  reference: both are read, and both are overwritten with what the helper leaves in them.\<close>

definition applyAt :: "(real \<times> real \<Rightarrow> real \<times> real) \<Rightarrow> nat \<Rightarrow> QvecArrays \<Rightarrow> error + QvecArrays" where
  "applyAt f idx a =
     bindE (atE (QvecRe a) idx) (\<lambda>qx.
     bindE (atE (QvecIm a) idx) (\<lambda>qy.
       let (qx', qy') = f (qx, qy)
       in Inr (a\<lparr>QvecRe := (QvecRe a)[idx := qx'], QvecIm := (QvecIm a)[idx := qy']\<rparr>)))"

text \<open>Lines 512 to 527 (and 547 to 562): the body of the loop over the six sub-systems.
  \<open>base\<close> is \<^verbatim>\<open>(kBNeg + 1) * 4 * id\<close>, the start of the harmonic's 24 entries, and
  \<open>obj\<close> the histogram \<^verbatim>\<open>objQvec.at(id)\<close>.\<close>

definition corrBody :: "EventPlaneHelper \<Rightarrow> TH3F \<Rightarrow> real \<Rightarrow> nat \<Rightarrow> nat \<Rightarrow> QvecArrays \<Rightarrow> error + QvecArrays" where
  "corrBody h obj cent base i a =
     (let bin = static_cast_int cent + 1; z = int i + 1 in
      bindE (applyAt (\<lambda>q. DoRecenter h q (obj bin 1 z) (obj bin 2 z)) (base + i * 4 + 1) a) (\<lambda>a.
      bindE (applyAt (\<lambda>q. DoRecenter h q (obj bin 1 z) (obj bin 2 z)) (base + i * 4 + 2) a) (\<lambda>a.
      bindE (applyAt (\<lambda>q. DoTwist h q (obj bin 3 z) (obj bin 4 z)) (base + i * 4 + 2) a) (\<lambda>a.
      bindE (applyAt (\<lambda>q. DoRecenter h q (obj bin 1 z) (obj bin 2 z)) (base + i * 4 + 3) a) (\<lambda>a.
      bindE (applyAt (\<lambda>q. DoTwist h q (obj bin 3 z) (obj bin 4 z)) (base + i * 4 + 3) a) (\<lambda>a.
             applyAt (\<lambda>q. DoRescale h q (obj bin 5 z) (obj bin 6 z)) (base + i * 4 + 3) a))))))"

text \<open>\<^verbatim>\<open>if (cent < 80) { for (i < 6) ... }\<close> with the histogram \<^verbatim>\<open>objQvec.at(id)\<close>:
  \<^verbatim>\<open>at\<close> throws outside the vector, and the call through a null entry does not return.\<close>

definition corrections :: "EventPlaneHelper \<Rightarrow> RunState \<Rightarrow> real \<Rightarrow> nat \<Rightarrow> nat \<Rightarrow> QvecArrays \<Rightarrow> error + QvecArrays" where
  "corrections h st cent ident base a =
     (if cent < 80 then
        bindE (atE (objQvec st) ident) (\<lambda>p.
          case p of
            None \<Rightarrow> Inl NullPointer
          | Some obj \<Rightarrow> forLoop (corrBody h obj cent base) [0..<6] a)
      else Inr a)"

definition readAt :: "QvecArrays \<Rightarrow> nat \<Rightarrow> error + real \<times> real" where
  "readAt a idx = bindE (atE (QvecRe a) idx) (\<lambda>qx. bindE (atE (QvecIm a) idx) (\<lambda>qy. Inr (qx, qy)))"

text \<open>The twelve per-sub-system vectors of \<^verbatim>\<open>process\<close>, a real and an imaginary one for each
  sub-system, kept as six vectors of pairs.\<close>

record DetVecs =
  qvecFT0C :: "(real \<times> real) list"
  qvecFT0A :: "(real \<times> real) list"
  qvecFT0M :: "(real \<times> real) list"
  qvecFV0A :: "(real \<times> real) list"
  qvecBPos :: "(real \<times> real) list"
  qvecBNeg :: "(real \<times> real) list"

definition noDetVecs :: DetVecs where
  "noDetVecs = \<lparr>qvecFT0C = [], qvecFT0A = [], qvecFT0M = [], qvecFV0A = [], qvecBPos = [], qvecBNeg = []\<rparr>"

definition noArrays :: QvecArrays where
  "noArrays = \<lparr>QvecRe = [], QvecIm = [], QvecAmp = [], PosLabel = [], NegLabel = []\<rparr>"

text \<open>Lines 530 to 541 (and 565 to 576): the element at offset 3 of each sub-system's group
  is appended to that sub-system's vector.\<close>

definition pushDet :: "QvecArrays \<Rightarrow> nat \<Rightarrow> DetVecs \<Rightarrow> error + DetVecs" where
  "pushDet a base d =
     bindE (readAt a (base + kFT0C * 4 + 3)) (\<lambda>c.
     bindE (readAt a (base + kFT0A * 4 + 3)) (\<lambda>a0.
     bindE (readAt a (base + kFT0M * 4 + 3)) (\<lambda>m.
     bindE (readAt a (base + kFV0A * 4 + 3)) (\<lambda>v.
     bindE (readAt a (base + kBPos * 4 + 3)) (\<lambda>p.
     bindE (readAt a (base + kBNeg * 4 + 3)) (\<lambda>n.
       Inr (d\<lparr>qvecFT0C := qvecFT0C d @ [c], qvecFT0A := qvecFT0A d @ [a0],
              qvecFT0M := qvecFT0M d @ [m], qvecFV0A := qvecFV0A d @ [v],
              qvecBPos := qvecBPos d @ [p], qvecBNeg := qvecBNeg d @ [n]\<rparr>)))))))"

text \<open>Lines 508 to 542: one turn of the loop over the configured harmonics.\<close>

definition harmBody :: "Config \<Rightarrow> EventPlaneHelper \<Rightarrow> RunState \<Rightarrow> real \<Rightarrow> Collision \<Rightarrow> Track list \<Rightarrow> nat \<Rightarrow> QvecArrays \<times> DetVecs \<Rightarrow> error + QvecArrays \<times> DetVecs" where
  "harmBody cfg h st cent coll tracks ident s =
     bindE (atE (cfgnMods cfg) ident) (\<lambda>ind.
     bindE (CalQvec cfg h st ind coll tracks (fst s)) (\<lambda>a.
     bindE (corrections h st cent ident ((kBNeg + 1) * 4 * ident) a) (\<lambda>a.
     bindE (pushDet a ((kBNeg + 1) * 4 * ident) (snd s)) (\<lambda>d.
       Inr (a, d)))))"

definition harmLoop :: "Config \<Rightarrow> EventPlaneHelper \<Rightarrow> RunState \<Rightarrow> real \<Rightarrow> Collision \<Rightarrow> Track list \<Rightarrow> error + QvecArrays \<times> DetVecs" where
  "harmLoop cfg h st cent coll tracks =
     forLoop (harmBody cfg h st cent coll tracks) [0..<length (cfgnMods cfg)] (noArrays, noDetVecs)"

text \<open>Lines 545 to 576: the harmonic 2 with the histogram \<^verbatim>\<open>objQvec.at(0)\<close>.\<close>

definition psi2 :: "Config \<Rightarrow> EventPlaneHelper \<Rightarrow> RunState \<Rightarrow> real \<Rightarrow> Collision \<Rightarrow> Track list \<Rightarrow> error + QvecArrays \<times> DetVecs" where
  "psi2 cfg h st cent coll tracks =
     bindE (CalQvec cfg h st 2 coll tracks noArrays) (\<lambda>a.
     bindE (corrections h st cent 0 0 a) (\<lambda>a.
     bindE (pushDet a 0 noDetVecs) (\<lambda>d.
       Inr (a, d))))"

text \<open>The rows handed to the output tables: the table of all Q-vectors always gets a row,
  a sub-system's table only when the sub-system is in use.\<close>

record Tables =
  qVector :: "real \<times> bool \<times> real list \<times> real list \<times> real list"
  qVectorFT0C :: "(bool \<times> real \<times> real \<times> real) option"
  qVectorFT0A :: "(bool \<times> real \<times> real \<times> real) option"
  qVectorFT0M :: "(bool \<times> real \<times> real \<times> real) option"
  qVectorFV0A :: "(bool \<times> real \<times> real \<times> real) option"
  qVectorBPos :: "(bool \<times> real \<times> real \<times> real \<times> int list) option"
  qVectorBNeg :: "(bool \<times> real \<times> real \<times> real \<times> int list) option"

definition detRow :: "bool \<Rightarrow> bool \<Rightarrow> (real \<times> real) list \<Rightarrow> real list \<Rightarrow> nat \<Rightarrow> error + (bool \<times> real \<times> real \<times> real) option" where
  "detRow used IsCalibrated qvec qvecAmp k =
     (if used then
        bindE (atE qvec 0) (\<lambda>q. bindE (atE qvecAmp k) (\<lambda>amp.
          Inr (Some (IsCalibrated, fst q, snd q, amp))))
      else Inr None)"

definition trkRow :: "bool \<Rightarrow> bool \<Rightarrow> (real \<times> real) list \<Rightarrow> real list \<Rightarrow> nat \<Rightarrow> int list \<Rightarrow> error + (bool \<times> real \<times> real \<times> real \<times> int list) option" where
  "trkRow used IsCalibrated qvec qvecAmp k labels =
     (if used then
        bindE (atE qvec 0) (\<lambda>q. bindE (atE qvecAmp k) (\<lambda>amp.
          Inr (Some (IsCalibrated, fst q, snd q, amp, labels))))
      else Inr None)"

text \<open>Lines 498 to 506: the centrality of the configured estimator, the flag, and the
  value 110 outside the window.\<close>

definition centrality :: "Config \<Rightarrow> Collision \<Rightarrow> error + real \<times> bool" where
  "centrality cfg coll =
     bindE (atE [centFT0M coll, centFT0A coll, centFT0C coll, centFV0A coll] (cfgCentEsti cfg)) (\<lambda>cent.
       if cent < 0 \<or> cent > 80 then Inr (110, False) else Inr (cent, True))"

definition reload :: "Config \<Rightarrow> CCDB \<Rightarrow> RunState \<Rightarrow> Collision \<Rightarrow> error + RunState" where
  "reload cfg ccdb st coll =
     (if runNumber st \<noteq> bcRunNumber coll then
        bindE (initCCDB cfg ccdb (bcTimestamp coll) st) (\<lambda>st.
          Inr (st\<lparr>runNumber := bcRunNumber coll\<rparr>))
      else Inr st)"

text \<open>\<^verbatim>\<open>process\<close> for one collision. The vectors of the loop over the harmonics are
  computed but handed to no table: the rows come from the harmonic 2 of lines 545 to 576.
  The result is the state of the task after the event and the rows.\<close>

definition process :: "Config \<Rightarrow> CCDB \<Rightarrow> EventPlaneHelper \<Rightarrow> RunState \<Rightarrow> Collision \<Rightarrow> Track list \<Rightarrow> error + RunState \<times> Tables" where
  "process cfg ccdb h st0 coll tracks =
     bindE (reload cfg ccdb st0 coll) (\<lambda>st.
     bindE (centrality cfg coll) (\<lambda>(cent, IsCalibrated).
     bindE (harmLoop cfg h st cent coll tracks) (\<lambda>vecs.
     bindE (psi2 cfg h st cent coll tracks) (\<lambda>(a, d).
     bindE (detRow (useDetector cfg ''QvectorFT0Cs'') IsCalibrated (qvecFT0C d) (QvecAmp a) kFT0C) (\<lambda>rFT0C.
     bindE (detRow (useDetector cfg ''QvectorFT0As'') IsCalibrated (qvecFT0A d) (QvecAmp a) kFT0A) (\<lambda>rFT0A.
     bindE (detRow (useDetector cfg ''QvectorFT0Ms'') IsCalibrated (qvecFT0M d) (QvecAmp a) kFT0M) (\<lambda>rFT0M.
     bindE (detRow (useDetector cfg ''QvectorFV0As'') IsCalibrated (qvecFV0A d) (QvecAmp a) kFV0A) (\<lambda>rFV0A.
     bindE (trkRow (useDetector cfg ''QvectorBPoss'') IsCalibrated (qvecBPos d) (QvecAmp a) kBPos (PosLabel a)) (\<lambda>rBPos.
     bindE (trkRow (useDetector cfg ''QvectorBNegs'') IsCalibrated (qvecBNeg d) (QvecAmp a) kBNeg (NegLabel a)) (\<lambda>rBNeg.
       Inr (st, \<lparr>qVector = (cent, IsCalibrated, QvecRe a, QvecIm a, QvecAmp a),
                 qVectorFT0C = rFT0C, qVectorFT0A = rFT0A, qVectorFT0M = rFT0M,
                 qVectorFV0A = rFV0A, qVectorBPos = rBPos, qVectorBNeg = rBNeg\<rparr>)))))))))))"

section \<open>The weights loader (jflucWeightsLoader.cxx)\<close>

text \<open>The correction histogram \<^verbatim>\<open>THnF\<close> is read through
  \<^verbatim>\<open>ph->GetBinContent(ph->GetBin(coords))\<close>: a function of the coordinates. The local file
  gives the object named \<^verbatim>\<open>NUAWeights_<run>\<close> for a run number, or a null pointer.\<close>

type_synonym THnF = "real list \<Rightarrow> real"

type_synonym TFile = "int \<Rightarrow> THnF option"

record WeightsConfig =
  cfgForRunNumber :: bool

record WeightsCCDB =
  getForRun :: "int \<Rightarrow> THnF option"
  getForTimeStamp :: "int \<Rightarrow> THnF option"

record WeightsLoader =
  ph :: "THnF option"
  pf :: "TFile option"
  loaderRunNumber :: int
  loaderTimestamp :: int
  useCCDB :: bool

record JCollision =
  collRunNumber :: int
  multiplicity :: real
  posZ :: real

record JTrack =
  trackPhi :: real
  trackEta :: real

definition loaderInitCCDB :: "WeightsConfig \<Rightarrow> WeightsCCDB \<Rightarrow> int \<Rightarrow> int \<Rightarrow> WeightsLoader \<Rightarrow> WeightsLoader" where
  "loaderInitCCDB cfg ccdb runNum ts st =
     (if cfgForRunNumber cfg then st\<lparr>ph := getForRun ccdb runNum\<rparr>
      else st\<lparr>ph := getForTimeStamp ccdb ts\<rparr>)"

text \<open>Lines 113 to 128: a new run number replaces the histogram. With a local file the
  pointer is taken from the file (\<open>pf\<close> is open here, line 111 has stopped otherwise);
  with the database it is set by \<open>loaderInitCCDB\<close>.\<close>

definition newRun :: "WeightsConfig \<Rightarrow> WeightsCCDB \<Rightarrow> JCollision \<Rightarrow> WeightsLoader \<Rightarrow> error + WeightsLoader" where
  "newRun cfg ccdb collision st =
     (if collRunNumber collision \<noteq> loaderRunNumber st then
        bindE (if \<not> useCCDB st then
                 (case pf st of
                    None \<Rightarrow> Inl NullPointer
                  | Some file \<Rightarrow> Inr (st\<lparr>ph := file (collRunNumber collision)\<rparr>))
               else Inr st) (\<lambda>st.
          let st = st\<lparr>loaderRunNumber := collRunNumber collision\<rparr>
          in if useCCDB st
             then Inr (loaderInitCCDB cfg ccdb (loaderRunNumber st) (loaderTimestamp st) st)
             else Inr st)
      else Inr st)"

text \<open>Lines 129 to 153: one row (phi weight, efficiency weight) for each track.\<close>

fun weightRows :: "WeightsLoader \<Rightarrow> JCollision \<Rightarrow> JTrack list \<Rightarrow> (real \<times> real) list" where
  "weightRows st collision [] = []"
| "weightRows st collision (track # rest) =
     (let phiWeight = (case ph st of
                         Some hist \<Rightarrow> hist [multiplicity collision, 0, trackPhi track,
                                            trackEta track, posZ collision]
                       | None \<Rightarrow> 1);
          effWeight = 1
      in (phiWeight, effWeight) # weightRows st collision rest)"

definition loadWeights :: "WeightsConfig \<Rightarrow> WeightsCCDB \<Rightarrow> WeightsLoader \<Rightarrow> JCollision \<Rightarrow> JTrack list \<Rightarrow> error + WeightsLoader \<times> (real \<times> real) list" where
  "loadWeights cfg ccdb st0 collision tracks =
     (if pf st0 = None \<and> \<not> useCCDB st0 then Inl Fatal
      else bindE (newRun cfg ccdb collision st0) (\<lambda>st.
             Inr (st, weightRows st collision tracks)))"

section \<open>The accumulator of the helper\<close>

text \<open>
  Modelled from the spec: \<^verbatim>\<open>EventPlaneHelper::SumQvectors\<close>, whose source is missing.
  The specification gives \<open>Q = \<Sum> amplitude\<^sub>i \<cdot> exp(i n \<phi>\<^sub>i)\<close> and
  \<open>W = \<Sum> amplitude\<^sub>i\<close>, the angle \<open>\<phi>\<^sub>i\<close> of a channel coming from the geometry:
  one call adds one channel's term to \<open>Q\<close> and its amplitude to \<open>W\<close>. The geometry
  (detector, channel) \<open>\<mapsto>\<close> azimuth is the parameter \<open>geom\<close>. The sum \<open>W\<close> is the caller's
  variable, which \<^verbatim>\<open>CalQvec\<close> declares as a \<^verbatim>\<open>float\<close> (lines 277 to 280), so the result of
  each addition is rounded to single precision: \<open>toFloat\<close> is that rounding, the identity
  in exact arithmetic. \<open>Q\<close> is a double-precision \<^verbatim>\<open>TComplex\<close> and is taken as exact.
\<close>

definition specSumQvectors :: "(real \<Rightarrow> real) \<Rightarrow> (nat \<Rightarrow> nat \<Rightarrow> real) \<Rightarrow> nat \<Rightarrow> nat \<Rightarrow> real \<Rightarrow> int \<Rightarrow> complex \<times> real \<Rightarrow> complex \<times> real" where
  "specSumQvectors toFloat geom det iCh ampl nmod qs =
     (fst qs + of_real ampl * cis (of_int nmod * geom det iCh), toFloat (snd qs + ampl))"

section \<open>Notions used to state the properties\<close>

text \<open>What a run of \<open>SumQvectors\<close> calls over a list of (channel, amplitude) pairs leaves in
  the accumulator (Q-vector, amplitude sum).\<close>

definition accumulate :: "EventPlaneHelper \<Rightarrow> nat \<Rightarrow> int \<Rightarrow> (nat \<times> real) list \<Rightarrow> complex \<times> real \<Rightarrow> complex \<times> real" where
  "accumulate h det nmode fed acc = foldl (\<lambda>acc (iCh, ampl). SumQvectors h det iCh ampl nmode acc) acc fed"

text \<open>The (channel, amplitude) pairs of an event, the amplitude divided by the channel's
  relative gain: A side and C side of FT0 (the C-side channel shifted by 96), and FV0.\<close>

definition fedA :: "real list \<Rightarrow> FT0 \<Rightarrow> (nat \<times> real) list" where
  "fedA gain ft0 =
     map (\<lambda>i. (channelA ft0 ! i, amplitudeA ft0 ! i / gain ! (channelA ft0 ! i))) [0..<length (channelA ft0)]"

definition fedC :: "real list \<Rightarrow> FT0 \<Rightarrow> (nat \<times> real) list" where
  "fedC gain ft0 =
     map (\<lambda>i. (channelC ft0 ! i + 96, amplitudeC ft0 ! i / gain ! (channelC ft0 ! i + 96))) [0..<length (channelC ft0)]"

definition fedV :: "real list \<Rightarrow> FV0 \<Rightarrow> (nat \<times> real) list" where
  "fedV gain fv0 =
     map (\<lambda>i. (channel fv0 ! i, amplitude fv0 ! i / gain ! (channel fv0 ! i))) [0..<length (channel fv0)]"

text \<open>The channels FT0M accumulates: those of the sides whose own sub-system is in use.\<close>

definition fedM :: "Config \<Rightarrow> real list \<Rightarrow> FT0 \<Rightarrow> (nat \<times> real) list" where
  "fedM cfg gain ft0 =
     (if useDetector cfg ''QvectorFT0As'' then fedA gain ft0 else []) @
     (if useDetector cfg ''QvectorFT0Cs'' then fedC gain ft0 else [])"

text \<open>An event is well formed for a run when every channel has an amplitude and a gain
  factor: no read of the channel loops leaves its container.\<close>

definition ft0InRange :: "real list \<Rightarrow> FT0 \<Rightarrow> bool" where
  "ft0InRange gain ft0 \<longleftrightarrow>
     length (channelA ft0) \<le> length (amplitudeA ft0) \<and> (\<forall>c\<in>set (channelA ft0). c < length gain) \<and>
     length (channelC ft0) \<le> length (amplitudeC ft0) \<and> (\<forall>c\<in>set (channelC ft0). c + 96 < length gain)"

definition fv0InRange :: "real list \<Rightarrow> FV0 \<Rightarrow> bool" where
  "fv0InRange gain fv0 \<longleftrightarrow>
     length (channel fv0) \<le> length (amplitude fv0) \<and> (\<forall>c\<in>set (channel fv0). c < length gain)"

definition inRange :: "RunState \<Rightarrow> Collision \<Rightarrow> bool" where
  "inRange st coll \<longleftrightarrow>
     (case foundFT0 coll of None \<Rightarrow> True | Some ft0 \<Rightarrow> ft0InRange (FT0RelGainConst st) ft0) \<and>
     (case foundFV0 coll of None \<Rightarrow> True | Some fv0 \<Rightarrow> fv0InRange (FV0RelGainConst st) fv0)"

text \<open>The pair written to \<^verbatim>\<open>qVectX\<close> from an accumulator: the quotient when the amplitude sum
  is above \<open>1e-8\<close>, and \<open>dflt\<close> otherwise.\<close>

definition reim :: "complex \<Rightarrow> real \<times> real" where
  "reim q = (Re q, Im q)"

definition normalised :: "complex \<times> real \<Rightarrow> real \<times> real \<Rightarrow> real \<times> real" where
  "normalised qw dflt = (if snd qw > 1 / 10 ^ 8 then reim (fst qw / of_real (snd qw)) else dflt)"







text \<open>The gain factors of a run are positive, as the specification has them, and the
  amplitudes of an event are non-negative.\<close>

definition gainsPositive :: "RunState \<Rightarrow> bool" where
  "gainsPositive st \<longleftrightarrow> (\<forall>g\<in>set (FT0RelGainConst st). 0 < g) \<and> (\<forall>g\<in>set (FV0RelGainConst st). 0 < g)"



text \<open>Membership in the two track sub-events: the conditions under which the loop pushes a
  track's label onto \<^verbatim>\<open>TrkBPosLabel\<close>, respectively \<^verbatim>\<open>TrkBNegLabel\<close>.\<close>

definition inPos :: "Config \<Rightarrow> Track \<Rightarrow> bool" where
  "inPos cfg t \<longleftrightarrow> SelTrack cfg t \<and> 0.1 \<le> \<bar>eta t\<bar> \<and> \<bar>eta t\<bar> \<le> 0.8 \<and> eta t > 0
     \<and> useDetector cfg ''QvectorBPoss''"

definition inNeg :: "Config \<Rightarrow> Track \<Rightarrow> bool" where
  "inNeg cfg t \<longleftrightarrow> SelTrack cfg t \<and> 0.1 \<le> \<bar>eta t\<bar> \<and> \<bar>eta t\<bar> \<le> 0.8 \<and> eta t < 0
     \<and> useDetector cfg ''QvectorBNegs''"

text \<open>The six Q-vectors of \<^verbatim>\<open>CalQvec\<close> in the order of the enum, and the six per-sub-system
  vectors of \<^verbatim>\<open>process\<close> in the same order.\<close>

definition sixQ :: "Locals \<Rightarrow> (real \<times> real) list" where
  "sixQ l = [qVectFT0C l, qVectFT0A l, qVectFT0M l, qVectFV0A l, qVectBPos l, qVectBNeg l]"

definition detVecs :: "DetVecs \<Rightarrow> (real \<times> real) list list" where
  "detVecs d = [qvecFT0C d, qvecFT0A d, qvecFT0M d, qvecFV0A d, qvecBPos d, qvecBNeg d]"

text \<open>The three corrections of sub-system \<open>i\<close> with the constants of centrality bin \<open>bin\<close>:
  the histogram is read at \<open>(bin, k, i + 1)\<close>, \<open>k = 1, 2\<close> for the means, \<open>3, 4\<close> for the
  twist and \<open>5, 6\<close> for the rescaling.\<close>

definition recentered :: "EventPlaneHelper \<Rightarrow> TH3F \<Rightarrow> int \<Rightarrow> nat \<Rightarrow> real \<times> real \<Rightarrow> real \<times> real" where
  "recentered h obj bin i q = DoRecenter h q (obj bin 1 (int i + 1)) (obj bin 2 (int i + 1))"

definition twisted :: "EventPlaneHelper \<Rightarrow> TH3F \<Rightarrow> int \<Rightarrow> nat \<Rightarrow> real \<times> real \<Rightarrow> real \<times> real" where
  "twisted h obj bin i q =
     DoTwist h (recentered h obj bin i q) (obj bin 3 (int i + 1)) (obj bin 4 (int i + 1))"

definition rescaled :: "EventPlaneHelper \<Rightarrow> TH3F \<Rightarrow> int \<Rightarrow> nat \<Rightarrow> real \<times> real \<Rightarrow> real \<times> real" where
  "rescaled h obj bin i q =
     DoRescale h (twisted h obj bin i q) (obj bin 5 (int i + 1)) (obj bin 6 (int i + 1))"

definition entry :: "real list \<Rightarrow> real list \<Rightarrow> nat \<Rightarrow> real \<times> real" where
  "entry re im j = (re ! j, im ! j)"

text \<open>The four copies of sub-system \<open>i\<close> in the group that starts at \<open>base\<close>: the raw
  Q-vector, then the three stages of the cascade applied to it.\<close>

definition calibrated :: "EventPlaneHelper \<Rightarrow> TH3F \<Rightarrow> int \<Rightarrow> nat \<Rightarrow> nat \<Rightarrow> real \<times> real \<Rightarrow> real list \<Rightarrow> real list \<Rightarrow> bool" where
  "calibrated h obj bin base i raw re im \<longleftrightarrow>
     entry re im (base + i * 4) = raw
     \<and> entry re im (base + i * 4 + 1) = recentered h obj bin i raw
     \<and> entry re im (base + i * 4 + 2) = twisted h obj bin i raw
     \<and> entry re im (base + i * 4 + 3) = rescaled h obj bin i raw"

definition uncalibrated :: "nat \<Rightarrow> nat \<Rightarrow> real \<times> real \<Rightarrow> real list \<Rightarrow> real list \<Rightarrow> bool" where
  "uncalibrated base i raw re im \<longleftrightarrow>
     entry re im (base + i * 4) = raw \<and> entry re im (base + i * 4 + 1) = raw
     \<and> entry re im (base + i * 4 + 2) = raw \<and> entry re im (base + i * 4 + 3) = raw"

definition groupDone :: "EventPlaneHelper \<Rightarrow> RunState \<Rightarrow> real \<Rightarrow> nat \<Rightarrow> nat \<Rightarrow> nat \<Rightarrow> real \<times> real \<Rightarrow> QvecArrays \<Rightarrow> bool" where
  "groupDone h st cent ident base i raw a \<longleftrightarrow>
     (if cent < 80
      then \<exists>obj. ident < length (objQvec st) \<and> objQvec st ! ident = Some obj
             \<and> calibrated h obj (static_cast_int cent + 1) base i raw (QvecRe a) (QvecIm a)
      else uncalibrated base i raw (QvecRe a) (QvecIm a))"

text \<open>The rows of the sub-system tables against the row of the table of all Q-vectors:
  each holds the element at offset 3 of its group and the amplitude of its sub-system.\<close>

definition fourthCopyEmitted :: "Config \<Rightarrow> Tables \<Rightarrow> bool" where
  "fourthCopyEmitted cfg T \<longleftrightarrow>
     (case qVector T of (cent, cal, re, im, amp) \<Rightarrow>
        qVectorFT0C T = (if useDetector cfg ''QvectorFT0Cs''
                         then Some (cal, re ! (kFT0C * 4 + 3), im ! (kFT0C * 4 + 3), amp ! kFT0C) else None)
      \<and> qVectorFT0A T = (if useDetector cfg ''QvectorFT0As''
                         then Some (cal, re ! (kFT0A * 4 + 3), im ! (kFT0A * 4 + 3), amp ! kFT0A) else None)
      \<and> qVectorFT0M T = (if useDetector cfg ''QvectorFT0Ms''
                         then Some (cal, re ! (kFT0M * 4 + 3), im ! (kFT0M * 4 + 3), amp ! kFT0M) else None)
      \<and> qVectorFV0A T = (if useDetector cfg ''QvectorFV0As''
                         then Some (cal, re ! (kFV0A * 4 + 3), im ! (kFV0A * 4 + 3), amp ! kFV0A) else None)
      \<and> (\<exists>labels. qVectorBPos T = (if useDetector cfg ''QvectorBPoss''
                         then Some (cal, re ! (kBPos * 4 + 3), im ! (kBPos * 4 + 3), amp ! kBPos, labels) else None))
      \<and> (\<exists>labels. qVectorBNeg T = (if useDetector cfg ''QvectorBNegs''
                         then Some (cal, re ! (kBNeg * 4 + 3), im ! (kBNeg * 4 + 3), amp ! kBNeg, labels) else None)))"

section \<open>Concrete events, configurations and runs\<close>

text \<open>
  Modelled from the spec: an instance of the missing helper, used to run the model on
  concrete events. \<open>SumQvectors\<close> is the accumulator of the specification in exact
  arithmetic with every channel at azimuth 0; recentering subtracts the two means and
  rescaling divides each component by its own width, as the specification describes them.
  The specification gives no formula for the twist; this instance takes a shear by the two
  coefficients.
\<close>

definition exampleHelper :: EventPlaneHelper where
  "exampleHelper =
     \<lparr>SumQvectors = specSumQvectors (\<lambda>z. z) (\<lambda>det iCh. 0),
      DoRecenter = (\<lambda>q x0 y0. (fst q - x0, snd q - y0)),
      DoTwist = (\<lambda>q a b. (fst q - b * snd q, snd q - a * fst q)),
      DoRescale = (\<lambda>q a b. (fst q / a, snd q / b))\<rparr>"




text \<open>A configuration with the default configurables and every sub-system in use, and the
  same with the sub-system BPos switched off.\<close>

definition exampleConfig :: Config where
  "exampleConfig = \<lparr>cfgCentEsti = 2, cfgMinPtOnTPC = 0.15, cfgMaxPtOnTPC = 5, cfgnMods = [2, 3],
     useDetector = (\<lambda>name. True)\<rparr>"

definition noBPosConfig :: Config where
  "noBPosConfig = exampleConfig\<lparr>useDetector := (\<lambda>name. name \<noteq> ''QvectorBPoss'')\<rparr>"

text \<open>A track that passes every quality flag, with transverse momentum 1, at a given
  pseudorapidity.\<close>

definition exampleTrack :: "real \<Rightarrow> int \<Rightarrow> Track" where
  "exampleTrack e idx = \<lparr>pt = 1, eta = e, phi = 0, passedITSNCls = True, passedITSChi2NDF = True,
     passedITSHits = True, passedTPCCrossedRowsOverNCls = True, passedTPCChi2NDF = True,
     passedDCAxy = True, passedDCAz = True, globalIndex = idx\<rparr>"

text \<open>A calibration histogram (mean 1 for the real part, rescaling widths 2, everything else
  0), a database that holds it for harmonic 2 only and no gain tables, and the same database
  without any calibration histogram.\<close>

definition exampleHist :: TH3F where
  "exampleHist binx biny binz = (if biny = 5 \<or> biny = 6 then 2 else if biny = 1 then 1 else 0)"

definition exampleCCDB :: CCDB where
  "exampleCCDB = \<lparr>alignFT0 = (\<lambda>ts. Some [(0, 0), (0, 0)]), alignFV0 = (\<lambda>ts. Some [(0, 0), (0, 0)]),
     qvecCalib = (\<lambda>ind ts. if ind = 2 then Some exampleHist else None),
     gainFT0 = (\<lambda>ts. None), gainFV0 = (\<lambda>ts. None)\<rparr>"

definition noCalibCCDB :: CCDB where
  "noCalibCCDB = exampleCCDB\<lparr>qvecCalib := (\<lambda>ind ts. None)\<rparr>"

text \<open>The database with a gain table for FT0 that holds the factor 2 for each of the 208
  channels, and none for FV0.\<close>

definition gainCCDB :: CCDB where
  "gainCCDB = exampleCCDB\<lparr>gainFT0 := (\<lambda>ts. Some (replicate 208 2))\<rparr>"

text \<open>The task before its first event, and after the tables of run 5 were loaded from
  \<open>exampleCCDB\<close> for the harmonics 2 and 3.\<close>

definition freshState :: RunState where
  "freshState = \<lparr>runNumber = - 1, FT0RelGainConst = [], FV0RelGainConst = [], objQvec = []\<rparr>"

definition loadedState :: RunState where
  "loadedState = \<lparr>runNumber = 5, FT0RelGainConst = replicate 208 1, FV0RelGainConst = replicate 48 1,
     objQvec = [Some exampleHist, Some exampleHist]\<rparr>"

text \<open>Events of run 5: one A-side channel with amplitude 100; the same with an FV0 signal;
  an FT0 signal on the C side only; an FV0 signal with a negative amplitude.\<close>

definition exampleFT0 :: FT0 where
  "exampleFT0 = \<lparr>channelA = [0], amplitudeA = [100], channelC = [], amplitudeC = []\<rparr>"

definition exampleFV0 :: FV0 where
  "exampleFV0 = \<lparr>channel = [3], amplitude = [7]\<rparr>"

definition exampleCollision :: "real \<Rightarrow> Collision" where
  "exampleCollision c = \<lparr>foundFT0 = Some exampleFT0,
     foundFV0 = None, centFT0M = c, centFT0A = c, centFT0C = c, centFV0A = c,
     bcRunNumber = 5, bcTimestamp = 0\<rparr>"

definition fullCollision :: Collision where
  "fullCollision = (exampleCollision 10)\<lparr>foundFV0 := Some exampleFV0\<rparr>"

definition cSideCollision :: "real \<Rightarrow> Collision" where
  "cSideCollision c = \<lparr>foundFT0 = Some \<lparr>channelA = [], amplitudeA = [], channelC = [5], amplitudeC = [50]\<rparr>,
     foundFV0 = None, centFT0M = c, centFT0A = c, centFT0C = c, centFV0A = c,
     bcRunNumber = 5, bcTimestamp = 0\<rparr>"



text \<open>A weights loader with an open local file that holds a histogram (constant 2) for run 7
  only.\<close>

definition exampleLoader :: WeightsLoader where
  "exampleLoader = \<lparr>ph = None, pf = Some (\<lambda>run. if run = 7 then Some (\<lambda>coords. 2) else None),
     loaderRunNumber = 0, loaderTimestamp = 0, useCCDB = False\<rparr>"

definition exampleWeightsCCDB :: WeightsCCDB where
  "exampleWeightsCCDB = \<lparr>getForRun = (\<lambda>run. None), getForTimeStamp = (\<lambda>ts. None)\<rparr>"

definition exampleJCollision :: "int \<Rightarrow> JCollision" where
  "exampleJCollision run = \<lparr>collRunNumber = run, multiplicity = 10, posZ = 0\<rparr>"

section \<open>Basic facts\<close>

lemma bindE_Inl [simp]: "bindE (Inl e) f = Inl e"
  by (simp add: bindE_def)

lemma bindE_Inr [simp]: "bindE (Inr x) f = f x"
  by (simp add: bindE_def)

lemma bindE_eq_Inr: "bindE m f = Inr y \<longleftrightarrow> (\<exists>x. m = Inr x \<and> f x = Inr y)"
  by (cases m) simp_all

lemma atE_in [simp]: "i < length xs \<Longrightarrow> atE xs i = Inr (xs ! i)"
  by (simp add: atE_def)

lemma atE_out [simp]: "\<not> i < length xs \<Longrightarrow> atE xs i = Inl OutOfRange"
  by (simp add: atE_def)

lemma forLoop_append: "forLoop body (xs @ ys) s = bindE (forLoop body xs s) (forLoop body ys)"
  by (induction xs arbitrary: s) (simp_all split: sum.splits)

lemma forLoop_single: "forLoop body [x] s = body x s"
  by (cases "body x s") simp_all

lemma forLoop_snoc:
  "forLoop body (xs @ [x]) s = Inr s' \<longleftrightarrow> (\<exists>s1. forLoop body xs s = Inr s1 \<and> body x s1 = Inr s')"
  unfolding forLoop_append bindE_eq_Inr forLoop_single ..

lemma replicate4: "replicate 4 x = [x, x, x, x]"
  by (simp add: numeral_eq_Suc)

lemma upt6: "[0..<6] = [0, 1, 2, 3, 4, 5]"
  by (simp add: upt_rec)

lemma less6: "i < 6 \<Longrightarrow> i = 0 \<or> i = 1 \<or> i = 2 \<or> i = 3 \<or> i = 4 \<or> i = (5::nat)"
  by auto

section \<open>The channel loops\<close>

lemma accumulate_append:
  "accumulate h det nmode (xs @ ys) acc = accumulate h det nmode ys (accumulate h det nmode xs acc)"
  by (simp add: accumulate_def)

lemma accumulate_Nil [simp]: "accumulate h det nmode [] acc = acc"
  by (simp add: accumulate_def)

lemma ft0aLoop_gen:
  assumes "\<forall>i\<in>set idxs. i < length (amplitudeA ft0) \<and> i < length (channelA ft0) \<and> channelA ft0 ! i < length gain"
  shows "forLoop (ft0aBody h gain nmode ft0) idxs l =
     Inr (l\<lparr>QvecDet := fst (accumulate h 0 nmode (map (\<lambda>i. (channelA ft0 ! i, amplitudeA ft0 ! i / gain ! (channelA ft0 ! i))) idxs) (QvecDet l, sumAmplFT0A l)),
            sumAmplFT0A := snd (accumulate h 0 nmode (map (\<lambda>i. (channelA ft0 ! i, amplitudeA ft0 ! i / gain ! (channelA ft0 ! i))) idxs) (QvecDet l, sumAmplFT0A l)),
            QvecFT0M := fst (accumulate h 0 nmode (map (\<lambda>i. (channelA ft0 ! i, amplitudeA ft0 ! i / gain ! (channelA ft0 ! i))) idxs) (QvecFT0M l, sumAmplFT0M l)),
            sumAmplFT0M := snd (accumulate h 0 nmode (map (\<lambda>i. (channelA ft0 ! i, amplitudeA ft0 ! i / gain ! (channelA ft0 ! i))) idxs) (QvecFT0M l, sumAmplFT0M l))\<rparr>)"
  using assms
  by (induction idxs arbitrary: l) (simp_all add: ft0aBody_def accumulate_def Let_def split_beta)

lemma ft0cLoop_gen:
  assumes "\<forall>i\<in>set idxs. i < length (amplitudeC ft0) \<and> i < length (channelC ft0) \<and> channelC ft0 ! i + 96 < length gain"
  shows "forLoop (ft0cBody h gain nmode ft0) idxs l =
     Inr (l\<lparr>QvecDet := fst (accumulate h 0 nmode (map (\<lambda>i. (channelC ft0 ! i + 96, amplitudeC ft0 ! i / gain ! (channelC ft0 ! i + 96))) idxs) (QvecDet l, sumAmplFT0C l)),
            sumAmplFT0C := snd (accumulate h 0 nmode (map (\<lambda>i. (channelC ft0 ! i + 96, amplitudeC ft0 ! i / gain ! (channelC ft0 ! i + 96))) idxs) (QvecDet l, sumAmplFT0C l)),
            QvecFT0M := fst (accumulate h 0 nmode (map (\<lambda>i. (channelC ft0 ! i + 96, amplitudeC ft0 ! i / gain ! (channelC ft0 ! i + 96))) idxs) (QvecFT0M l, sumAmplFT0M l)),
            sumAmplFT0M := snd (accumulate h 0 nmode (map (\<lambda>i. (channelC ft0 ! i + 96, amplitudeC ft0 ! i / gain ! (channelC ft0 ! i + 96))) idxs) (QvecFT0M l, sumAmplFT0M l))\<rparr>)"
  using assms
  by (induction idxs arbitrary: l) (simp_all add: ft0cBody_def accumulate_def Let_def split_beta)

lemma fv0Loop_gen:
  assumes "\<forall>i\<in>set idxs. i < length (amplitude fv0) \<and> i < length (channel fv0) \<and> channel fv0 ! i < length gain"
  shows "forLoop (fv0Body h gain nmode fv0) idxs l =
     Inr (l\<lparr>QvecDet := fst (accumulate h 1 nmode (map (\<lambda>i. (channel fv0 ! i, amplitude fv0 ! i / gain ! (channel fv0 ! i))) idxs) (QvecDet l, sumAmplFV0A l)),
            sumAmplFV0A := snd (accumulate h 1 nmode (map (\<lambda>i. (channel fv0 ! i, amplitude fv0 ! i / gain ! (channel fv0 ! i))) idxs) (QvecDet l, sumAmplFV0A l))\<rparr>)"
  using assms
  by (induction idxs arbitrary: l) (simp_all add: fv0Body_def accumulate_def Let_def split_beta)

lemma ft0aLoop:
  assumes "ft0InRange gain ft0"
  shows "forLoop (ft0aBody h gain nmode ft0) [0..<length (channelA ft0)] l =
     Inr (l\<lparr>QvecDet := fst (accumulate h 0 nmode (fedA gain ft0) (QvecDet l, sumAmplFT0A l)),
            sumAmplFT0A := snd (accumulate h 0 nmode (fedA gain ft0) (QvecDet l, sumAmplFT0A l)),
            QvecFT0M := fst (accumulate h 0 nmode (fedA gain ft0) (QvecFT0M l, sumAmplFT0M l)),
            sumAmplFT0M := snd (accumulate h 0 nmode (fedA gain ft0) (QvecFT0M l, sumAmplFT0M l))\<rparr>)"
  unfolding fedA_def
  by (rule ft0aLoop_gen) (use assms in \<open>auto simp: ft0InRange_def\<close>)

lemma ft0cLoop:
  assumes "ft0InRange gain ft0"
  shows "forLoop (ft0cBody h gain nmode ft0) [0..<length (channelC ft0)] l =
     Inr (l\<lparr>QvecDet := fst (accumulate h 0 nmode (fedC gain ft0) (QvecDet l, sumAmplFT0C l)),
            sumAmplFT0C := snd (accumulate h 0 nmode (fedC gain ft0) (QvecDet l, sumAmplFT0C l)),
            QvecFT0M := fst (accumulate h 0 nmode (fedC gain ft0) (QvecFT0M l, sumAmplFT0M l)),
            sumAmplFT0M := snd (accumulate h 0 nmode (fedC gain ft0) (QvecFT0M l, sumAmplFT0M l))\<rparr>)"
  unfolding fedC_def
  by (rule ft0cLoop_gen) (use assms in \<open>auto simp: ft0InRange_def\<close>)

lemma fv0Loop:
  assumes "fv0InRange gain fv0"
  shows "forLoop (fv0Body h gain nmode fv0) [0..<length (channel fv0)] l =
     Inr (l\<lparr>QvecDet := fst (accumulate h 1 nmode (fedV gain fv0) (QvecDet l, sumAmplFV0A l)),
            sumAmplFV0A := snd (accumulate h 1 nmode (fedV gain fv0) (QvecDet l, sumAmplFV0A l))\<rparr>)"
  unfolding fedV_def
  by (rule fv0Loop_gen) (use assms in \<open>auto simp: fv0InRange_def\<close>)

section \<open>The blocks of CalQvec\<close>

lemma ft0Block_found:
  assumes found: "foundFT0 coll = Some ft0"
    and used: "useDetector cfg ''QvectorFT0As'' \<or> useDetector cfg ''QvectorFT0Cs'' \<or> useDetector cfg ''QvectorFT0Ms''"
    and inr: "ft0InRange (FT0RelGainConst st) ft0"
  shows "\<exists>l'. ft0Block cfg h st nmode coll initLocals = Inr l'
     \<and> qVectFT0A l' = (if useDetector cfg ''QvectorFT0As''
                       then normalised (accumulate h 0 nmode (fedA (FT0RelGainConst st) ft0) (0, 0)) (0, 0) else (999, 999))
     \<and> qVectFT0C l' = (if useDetector cfg ''QvectorFT0Cs''
                       then normalised (accumulate h 0 nmode (fedC (FT0RelGainConst st) ft0) (0, 0)) (999, 999) else (- 999, - 999))
     \<and> qVectFT0M l' = (if useDetector cfg ''QvectorFT0Ms''
                       then normalised (accumulate h 0 nmode (fedM cfg (FT0RelGainConst st) ft0) (0, 0)) (999, 999) else (999, 999))
     \<and> sumAmplFT0A l' = (if useDetector cfg ''QvectorFT0As'' then snd (accumulate h 0 nmode (fedA (FT0RelGainConst st) ft0) (0, 0)) else 0)
     \<and> sumAmplFT0C l' = (if useDetector cfg ''QvectorFT0Cs'' then snd (accumulate h 0 nmode (fedC (FT0RelGainConst st) ft0) (0, 0)) else 0)
     \<and> sumAmplFT0M l' = snd (accumulate h 0 nmode (fedM cfg (FT0RelGainConst st) ft0) (0, 0))
     \<and> qVectBPos l' = (0,0) \<and> qVectBNeg l' = (0,0)
     \<and> nTrkBPos l' = 0 \<and> nTrkBNeg l' = 0 \<and> TrkBPosLabel l' = [] \<and> TrkBNegLabel l' = []"
  using found used
  by (simp add: ft0Block_def ft0aPart_def ft0cPart_def ft0mPart_def
      ft0aLoop[OF inr] ft0cLoop[OF inr] fedM_def
      initLocals_def normalised_def reim_def Let_def accumulate_append)

lemma ft0Block_absent:
  assumes "foundFT0 coll = None \<or> \<not> (useDetector cfg ''QvectorFT0As'' \<or> useDetector cfg ''QvectorFT0Cs'' \<or> useDetector cfg ''QvectorFT0Ms'')"
  shows "\<exists>l'. ft0Block cfg h st nmode coll initLocals = Inr l'
     \<and> qVectFT0A l' = (- 999, - 999) \<and> qVectFT0C l' = (- 999, - 999) \<and> qVectFT0M l' = (- 999, - 999)
     \<and> sumAmplFT0A l' = 0 \<and> sumAmplFT0C l' = 0 \<and> sumAmplFT0M l' = 0
     \<and> qVectBPos l' = (0,0) \<and> qVectBNeg l' = (0,0)
     \<and> nTrkBPos l' = 0 \<and> nTrkBNeg l' = 0 \<and> TrkBPosLabel l' = [] \<and> TrkBNegLabel l' = []"
  using assms
  by (auto simp add: ft0Block_def initLocals_def split: option.splits)

lemma fv0Block_found:
  assumes found: "foundFV0 coll = Some fv0" and used: "useDetector cfg ''QvectorFV0As''"
    and inr: "fv0InRange (FV0RelGainConst st) fv0"
  shows "\<exists>l'. fv0Block cfg h st nmode coll l = Inr l'
     \<and> qVectFV0A l' = normalised (accumulate h 1 nmode (fedV (FV0RelGainConst st) fv0) (0, 0)) (999, 999)
     \<and> sumAmplFV0A l' = snd (accumulate h 1 nmode (fedV (FV0RelGainConst st) fv0) (0, 0))
     \<and> qVectFT0A l' = qVectFT0A l \<and> qVectFT0C l' = qVectFT0C l \<and> qVectFT0M l' = qVectFT0M l
     \<and> sumAmplFT0A l' = sumAmplFT0A l \<and> sumAmplFT0C l' = sumAmplFT0C l \<and> sumAmplFT0M l' = sumAmplFT0M l
     \<and> qVectBPos l' = qVectBPos l \<and> qVectBNeg l' = qVectBNeg l
     \<and> nTrkBPos l' = nTrkBPos l \<and> nTrkBNeg l' = nTrkBNeg l
     \<and> TrkBPosLabel l' = TrkBPosLabel l \<and> TrkBNegLabel l' = TrkBNegLabel l"
  using found used
  by (simp add: fv0Block_def fv0Loop[OF inr] normalised_def reim_def Let_def)

lemma fv0Block_absent:
  assumes "foundFV0 coll = None \<or> \<not> useDetector cfg ''QvectorFV0As''"
  shows "\<exists>l'. fv0Block cfg h st nmode coll l = Inr l'
     \<and> qVectFV0A l' = (- 999, - 999)
     \<and> sumAmplFV0A l' = 0
     \<and> qVectFT0A l' = qVectFT0A l \<and> qVectFT0C l' = qVectFT0C l \<and> qVectFT0M l' = qVectFT0M l
     \<and> sumAmplFT0A l' = sumAmplFT0A l \<and> sumAmplFT0C l' = sumAmplFT0C l \<and> sumAmplFT0M l' = sumAmplFT0M l
     \<and> qVectBPos l' = qVectBPos l \<and> qVectBNeg l' = qVectBNeg l
     \<and> nTrkBPos l' = nTrkBPos l \<and> nTrkBNeg l' = nTrkBNeg l
     \<and> TrkBPosLabel l' = TrkBPosLabel l \<and> TrkBNegLabel l' = TrkBNegLabel l"
  using assms
  by (auto simp add: fv0Block_def Let_def split: option.splits)

lemma fv0Block_keeps:
  assumes "case foundFV0 coll of None \<Rightarrow> True | Some fv0 \<Rightarrow> fv0InRange (FV0RelGainConst st) fv0"
  shows "\<exists>l'. fv0Block cfg h st nmode coll l = Inr l'
     \<and> qVectFT0A l' = qVectFT0A l \<and> qVectFT0C l' = qVectFT0C l \<and> qVectFT0M l' = qVectFT0M l
     \<and> sumAmplFT0A l' = sumAmplFT0A l \<and> sumAmplFT0C l' = sumAmplFT0C l \<and> sumAmplFT0M l' = sumAmplFT0M l
     \<and> qVectBPos l' = qVectBPos l \<and> qVectBNeg l' = qVectBNeg l
     \<and> nTrkBPos l' = nTrkBPos l \<and> nTrkBNeg l' = nTrkBNeg l
     \<and> TrkBPosLabel l' = TrkBPosLabel l \<and> TrkBNegLabel l' = TrkBNegLabel l"
proof (cases "foundFV0 coll = None \<or> \<not> useDetector cfg ''QvectorFV0As''")
  case True
  from fv0Block_absent[OF True, where h=h and st=st and nmode=nmode and l=l] show ?thesis by blast
next
  case False
  then obtain fv0 where f: "foundFV0 coll = Some fv0" and u: "useDetector cfg ''QvectorFV0As''" by auto
  with assms have "fv0InRange (FV0RelGainConst st) fv0" by simp
  from fv0Block_found[OF f u this, where h=h and nmode=nmode and l=l] show ?thesis by blast
qed

lemma ft0Block_returns:
  assumes "case foundFT0 coll of None \<Rightarrow> True | Some ft0 \<Rightarrow> ft0InRange (FT0RelGainConst st) ft0"
  shows "\<exists>l'. ft0Block cfg h st nmode coll initLocals = Inr l'
     \<and> qVectBPos l' = (0,0) \<and> qVectBNeg l' = (0,0)
     \<and> nTrkBPos l' = 0 \<and> nTrkBNeg l' = 0 \<and> TrkBPosLabel l' = [] \<and> TrkBNegLabel l' = []"
proof (cases "foundFT0 coll = None \<or> \<not> (useDetector cfg ''QvectorFT0As'' \<or> useDetector cfg ''QvectorFT0Cs'' \<or> useDetector cfg ''QvectorFT0Ms'')")
  case True
  from ft0Block_absent[OF True, where h=h and st=st and nmode=nmode] show ?thesis by blast
next
  case False
  then obtain ft0 where f: "foundFT0 coll = Some ft0"
    and u: "useDetector cfg ''QvectorFT0As'' \<or> useDetector cfg ''QvectorFT0Cs'' \<or> useDetector cfg ''QvectorFT0Ms''" by auto
  with assms have "ft0InRange (FT0RelGainConst st) ft0" by simp
  from ft0Block_found[OF f u this, where h=h and nmode=nmode] show ?thesis by blast
qed

section \<open>The track loop\<close>

lemma trackLoop_pos:
  "TrkBPosLabel (trackLoop cfg nmode ts l) = TrkBPosLabel l @ map globalIndex (filter (inPos cfg) ts)
   \<and> nTrkBPos (trackLoop cfg nmode ts l) = nTrkBPos l + length (filter (inPos cfg) ts)"
  by (induction ts arbitrary: l) (auto simp: inPos_def)

lemma trackLoop_neg:
  "TrkBNegLabel (trackLoop cfg nmode ts l) = TrkBNegLabel l @ map globalIndex (filter (inNeg cfg) ts)
   \<and> nTrkBNeg (trackLoop cfg nmode ts l) = nTrkBNeg l + length (filter (inNeg cfg) ts)"
  by (induction ts arbitrary: l) (auto simp: inNeg_def)

lemma trackLoop_keeps:
  "qVectFT0A (trackLoop cfg nmode ts l) = qVectFT0A l \<and> qVectFT0C (trackLoop cfg nmode ts l) = qVectFT0C l
   \<and> qVectFT0M (trackLoop cfg nmode ts l) = qVectFT0M l \<and> qVectFV0A (trackLoop cfg nmode ts l) = qVectFV0A l
   \<and> sumAmplFT0A (trackLoop cfg nmode ts l) = sumAmplFT0A l \<and> sumAmplFT0C (trackLoop cfg nmode ts l) = sumAmplFT0C l
   \<and> sumAmplFT0M (trackLoop cfg nmode ts l) = sumAmplFT0M l \<and> sumAmplFV0A (trackLoop cfg nmode ts l) = sumAmplFV0A l"
  by (induction ts arbitrary: l) auto

lemma normTracks_keeps:
  "qVectFT0A (normTracks l) = qVectFT0A l \<and> qVectFT0C (normTracks l) = qVectFT0C l
   \<and> qVectFT0M (normTracks l) = qVectFT0M l \<and> qVectFV0A (normTracks l) = qVectFV0A l
   \<and> sumAmplFT0A (normTracks l) = sumAmplFT0A l \<and> sumAmplFT0C (normTracks l) = sumAmplFT0C l
   \<and> sumAmplFT0M (normTracks l) = sumAmplFT0M l \<and> sumAmplFV0A (normTracks l) = sumAmplFV0A l
   \<and> nTrkBPos (normTracks l) = nTrkBPos l \<and> nTrkBNeg (normTracks l) = nTrkBNeg l
   \<and> TrkBPosLabel (normTracks l) = TrkBPosLabel l \<and> TrkBNegLabel (normTracks l) = TrkBNegLabel l"
  by (simp add: normTracks_def Let_def)

lemma CalQvecLocals_returns:
  assumes "inRange st coll"
  shows "\<exists>l. CalQvecLocals cfg h st nmode coll tracks = Inr l"
proof -
  from assms obtain l1 where 1: "ft0Block cfg h st nmode coll initLocals = Inr l1"
    using ft0Block_returns[where coll=coll and st=st and cfg=cfg and h=h and nmode=nmode] by (auto simp: inRange_def)
  from assms obtain l2 where 2: "fv0Block cfg h st nmode coll l1 = Inr l2"
    using fv0Block_keeps[where coll=coll and st=st and cfg=cfg and h=h and nmode=nmode and l=l1] by (auto simp: inRange_def)
  show ?thesis by (simp add: CalQvecLocals_def 1 2)
qed

lemma CalQvec_Inr:
  "CalQvec cfg h st nmode coll tracks a = Inr a1 \<longleftrightarrow>
     (\<exists>l. CalQvecLocals cfg h st nmode coll tracks = Inr l \<and> a1 = pushQvec l a)"
  by (auto simp: CalQvec_def bindE_eq_Inr)

section \<open>The corrections\<close>

lemma applyAt_ok:
  assumes "idx < length (QvecRe a)" "idx < length (QvecIm a)"
  shows "applyAt f idx a =
    Inr (a\<lparr>QvecRe := (QvecRe a)[idx := fst (f (QvecRe a ! idx, QvecIm a ! idx))],
           QvecIm := (QvecIm a)[idx := snd (f (QvecRe a ! idx, QvecIm a ! idx))]\<rparr>)"
  using assms by (simp add: applyAt_def split_beta)

lemma corrBody_ok:
  assumes "base + i * 4 + 3 < length (QvecRe a)" "base + i * 4 + 3 < length (QvecIm a)"
  shows "\<exists>a'. corrBody h obj cent base i a = Inr a'
     \<and> length (QvecRe a') = length (QvecRe a) \<and> length (QvecIm a') = length (QvecIm a)
     \<and> QvecAmp a' = QvecAmp a \<and> PosLabel a' = PosLabel a \<and> NegLabel a' = NegLabel a
     \<and> entry (QvecRe a') (QvecIm a') (base + i * 4 + 1)
         = recentered h obj (static_cast_int cent + 1) i (entry (QvecRe a) (QvecIm a) (base + i * 4 + 1))
     \<and> entry (QvecRe a') (QvecIm a') (base + i * 4 + 2)
         = twisted h obj (static_cast_int cent + 1) i (entry (QvecRe a) (QvecIm a) (base + i * 4 + 2))
     \<and> entry (QvecRe a') (QvecIm a') (base + i * 4 + 3)
         = rescaled h obj (static_cast_int cent + 1) i (entry (QvecRe a) (QvecIm a) (base + i * 4 + 3))
     \<and> (\<forall>j. j \<noteq> base + i * 4 + 1 \<and> j \<noteq> base + i * 4 + 2 \<and> j \<noteq> base + i * 4 + 3
            \<longrightarrow> entry (QvecRe a') (QvecIm a') j = entry (QvecRe a) (QvecIm a) j)"
  using assms
  by (simp add: corrBody_def Let_def applyAt_ok entry_def recentered_def twisted_def rescaled_def)

lemma group_disjoint:
  fixes i i' :: nat
  assumes "i \<noteq> i'" "k < 4" "k' < 4"
  shows "base + i * 4 + k \<noteq> base + i' * 4 + k'"
  using assms by presburger

text \<open>The loop over the sub-systems changes the copies 1 to 3 of each visited group, each
  from its own previous value, and nothing else.\<close>

lemma corrLoop_ok:
  assumes "distinct idxs"
    and "\<forall>i\<in>set idxs. base + i * 4 + 3 < length (QvecRe a) \<and> base + i * 4 + 3 < length (QvecIm a)"
  shows "\<exists>a'. forLoop (corrBody h obj cent base) idxs a = Inr a'
     \<and> length (QvecRe a') = length (QvecRe a) \<and> length (QvecIm a') = length (QvecIm a)
     \<and> QvecAmp a' = QvecAmp a \<and> PosLabel a' = PosLabel a \<and> NegLabel a' = NegLabel a
     \<and> (\<forall>i\<in>set idxs.
            entry (QvecRe a') (QvecIm a') (base + i * 4 + 1)
              = recentered h obj (static_cast_int cent + 1) i (entry (QvecRe a) (QvecIm a) (base + i * 4 + 1))
          \<and> entry (QvecRe a') (QvecIm a') (base + i * 4 + 2)
              = twisted h obj (static_cast_int cent + 1) i (entry (QvecRe a) (QvecIm a) (base + i * 4 + 2))
          \<and> entry (QvecRe a') (QvecIm a') (base + i * 4 + 3)
              = rescaled h obj (static_cast_int cent + 1) i (entry (QvecRe a) (QvecIm a) (base + i * 4 + 3)))
     \<and> (\<forall>j. (\<forall>i\<in>set idxs. j \<noteq> base + i * 4 + 1 \<and> j \<noteq> base + i * 4 + 2 \<and> j \<noteq> base + i * 4 + 3)
            \<longrightarrow> entry (QvecRe a') (QvecIm a') j = entry (QvecRe a) (QvecIm a) j)"
  using assms
proof (induction idxs arbitrary: a)
  case Nil
  then show ?case by simp
next
  case (Cons i rest)
  let ?bin = "static_cast_int cent + 1"
  from Cons.prems have ir: "base + i * 4 + 3 < length (QvecRe a)" "base + i * 4 + 3 < length (QvecIm a)"
    by auto
  from corrBody_ok[OF ir, where h=h and obj=obj and cent=cent]
  obtain a1 where b: "corrBody h obj cent base i a = Inr a1"
    and len1: "length (QvecRe a1) = length (QvecRe a)" "length (QvecIm a1) = length (QvecIm a)"
    and same1: "QvecAmp a1 = QvecAmp a" "PosLabel a1 = PosLabel a" "NegLabel a1 = NegLabel a"
    and c1: "entry (QvecRe a1) (QvecIm a1) (base + i * 4 + 1) = recentered h obj ?bin i (entry (QvecRe a) (QvecIm a) (base + i * 4 + 1))"
    and c2: "entry (QvecRe a1) (QvecIm a1) (base + i * 4 + 2) = twisted h obj ?bin i (entry (QvecRe a) (QvecIm a) (base + i * 4 + 2))"
    and c3: "entry (QvecRe a1) (QvecIm a1) (base + i * 4 + 3) = rescaled h obj ?bin i (entry (QvecRe a) (QvecIm a) (base + i * 4 + 3))"
    and un1: "\<And>j. j \<noteq> base + i * 4 + 1 \<Longrightarrow> j \<noteq> base + i * 4 + 2 \<Longrightarrow> j \<noteq> base + i * 4 + 3
                \<Longrightarrow> entry (QvecRe a1) (QvecIm a1) j = entry (QvecRe a) (QvecIm a) j"
    by blast
  from Cons.prems have d: "distinct rest" and notin: "i \<notin> set rest" by auto
  from Cons.prems len1 have rr: "\<forall>i\<in>set rest. base + i * 4 + 3 < length (QvecRe a1) \<and> base + i * 4 + 3 < length (QvecIm a1)"
    by auto
  from Cons.IH[OF d rr]
  obtain a' where l: "forLoop (corrBody h obj cent base) rest a1 = Inr a'"
    and len: "length (QvecRe a') = length (QvecRe a1)" "length (QvecIm a') = length (QvecIm a1)"
    and same: "QvecAmp a' = QvecAmp a1" "PosLabel a' = PosLabel a1" "NegLabel a' = NegLabel a1"
    and cas: "\<And>i'. i' \<in> set rest \<Longrightarrow>
            entry (QvecRe a') (QvecIm a') (base + i' * 4 + 1)
              = recentered h obj ?bin i' (entry (QvecRe a1) (QvecIm a1) (base + i' * 4 + 1))
          \<and> entry (QvecRe a') (QvecIm a') (base + i' * 4 + 2)
              = twisted h obj ?bin i' (entry (QvecRe a1) (QvecIm a1) (base + i' * 4 + 2))
          \<and> entry (QvecRe a') (QvecIm a') (base + i' * 4 + 3)
              = rescaled h obj ?bin i' (entry (QvecRe a1) (QvecIm a1) (base + i' * 4 + 3))"
    and un: "\<And>j. (\<forall>i\<in>set rest. j \<noteq> base + i * 4 + 1 \<and> j \<noteq> base + i * 4 + 2 \<and> j \<noteq> base + i * 4 + 3)
               \<Longrightarrow> entry (QvecRe a') (QvecIm a') j = entry (QvecRe a1) (QvecIm a1) j"
    by blast
  have far: "entry (QvecRe a') (QvecIm a') (base + i * 4 + k) = entry (QvecRe a1) (QvecIm a1) (base + i * 4 + k)"
    if k: "k < 4" for k
  proof (rule un, rule ballI)
    fix i' assume "i' \<in> set rest"
    with notin have ne: "i \<noteq> i'" by auto
    show "base + i * 4 + k \<noteq> base + i' * 4 + 1 \<and> base + i * 4 + k \<noteq> base + i' * 4 + 2
            \<and> base + i * 4 + k \<noteq> base + i' * 4 + 3"
      using group_disjoint[OF ne k, of 1 base] group_disjoint[OF ne k, of 2 base]
        group_disjoint[OF ne k, of 3 base] by simp
  qed
  have head: "entry (QvecRe a') (QvecIm a') (base + i * 4 + 1)
              = recentered h obj ?bin i (entry (QvecRe a) (QvecIm a) (base + i * 4 + 1))
          \<and> entry (QvecRe a') (QvecIm a') (base + i * 4 + 2)
              = twisted h obj ?bin i (entry (QvecRe a) (QvecIm a) (base + i * 4 + 2))
          \<and> entry (QvecRe a') (QvecIm a') (base + i * 4 + 3)
              = rescaled h obj ?bin i (entry (QvecRe a) (QvecIm a) (base + i * 4 + 3))"
    using far[of 1] far[of 2] far[of 3] c1 c2 c3 by simp
  have tail: "entry (QvecRe a') (QvecIm a') (base + i' * 4 + 1)
              = recentered h obj ?bin i' (entry (QvecRe a) (QvecIm a) (base + i' * 4 + 1))
          \<and> entry (QvecRe a') (QvecIm a') (base + i' * 4 + 2)
              = twisted h obj ?bin i' (entry (QvecRe a) (QvecIm a) (base + i' * 4 + 2))
          \<and> entry (QvecRe a') (QvecIm a') (base + i' * 4 + 3)
              = rescaled h obj ?bin i' (entry (QvecRe a) (QvecIm a) (base + i' * 4 + 3))"
    if "i' \<in> set rest" for i'
  proof -
    from that notin have ne: "i' \<noteq> i" by auto
    have "entry (QvecRe a1) (QvecIm a1) (base + i' * 4 + k) = entry (QvecRe a) (QvecIm a) (base + i' * 4 + k)"
      if k: "k < 4" for k
      by (rule un1) (use group_disjoint[OF ne k, of 1 base] group_disjoint[OF ne k, of 2 base]
          group_disjoint[OF ne k, of 3 base] in simp_all)
    from this[of 1] this[of 2] this[of 3] cas[OF \<open>i' \<in> set rest\<close>] show ?thesis
      by simp
  qed
  have untouched: "entry (QvecRe a') (QvecIm a') j = entry (QvecRe a) (QvecIm a) j"
    if "\<forall>i'\<in>set (i # rest). j \<noteq> base + i' * 4 + 1 \<and> j \<noteq> base + i' * 4 + 2 \<and> j \<noteq> base + i' * 4 + 3" for j
  proof -
    from that have "entry (QvecRe a') (QvecIm a') j = entry (QvecRe a1) (QvecIm a1) j" by (intro un) simp
    also from that have "\<dots> = entry (QvecRe a) (QvecIm a) j" by (intro un1) simp_all
    finally show ?thesis .
  qed
  show ?case
    using b l len len1 same same1 head tail untouched by auto
qed

lemma pushQvec_length:
  "length (QvecRe (pushQvec l a)) = length (QvecRe a) + 24"
  "length (QvecIm (pushQvec l a)) = length (QvecIm a) + 24"
  "length (QvecAmp (pushQvec l a)) = length (QvecAmp a) + 6"
  by (simp_all add: pushQvec_def)

lemma pushQvec_old:
  assumes "j < length (QvecRe a)" "j < length (QvecIm a)"
  shows "entry (QvecRe (pushQvec l a)) (QvecIm (pushQvec l a)) j = entry (QvecRe a) (QvecIm a) j"
  using assms by (simp add: pushQvec_def entry_def nth_append)

lemma pushQvec_new:
  assumes "length (QvecRe a) = n" "length (QvecIm a) = n" "i < 6" "k < 4"
  shows "entry (QvecRe (pushQvec l a)) (QvecIm (pushQvec l a)) (n + i * 4 + k) = sixQ l ! i"
proof -
  have re: "QvecRe (pushQvec l a) ! (n + m) = (replicate 4 (fst (qVectFT0C l)) @ replicate 4 (fst (qVectFT0A l))
                 @ replicate 4 (fst (qVectFT0M l)) @ replicate 4 (fst (qVectFV0A l))
                 @ replicate 4 (fst (qVectBPos l)) @ replicate 4 (fst (qVectBNeg l))) ! m" for m
    using assms(1) by (simp add: pushQvec_def nth_append)
  have im: "QvecIm (pushQvec l a) ! (n + m) = (replicate 4 (snd (qVectFT0C l)) @ replicate 4 (snd (qVectFT0A l))
                 @ replicate 4 (snd (qVectFT0M l)) @ replicate 4 (snd (qVectFV0A l))
                 @ replicate 4 (snd (qVectBPos l)) @ replicate 4 (snd (qVectBNeg l))) ! m" for m
    using assms(2) by (simp add: pushQvec_def nth_append)
  from assms(4) have k: "k = 0 \<or> k = 1 \<or> k = 2 \<or> k = 3" by auto
  have "entry (QvecRe (pushQvec l a)) (QvecIm (pushQvec l a)) (n + (i * 4 + k)) = sixQ l ! i"
    unfolding entry_def re im using less6[OF assms(3)] k
    by (auto simp: replicate4 sixQ_def)
  then show ?thesis by (simp add: add.assoc)
qed

lemma groupDone_cong:
  assumes "groupDone h st cent ident base i raw a"
    and "\<And>k. k < 4 \<Longrightarrow> entry (QvecRe a') (QvecIm a') (base + i * 4 + k) = entry (QvecRe a) (QvecIm a) (base + i * 4 + k)"
  shows "groupDone h st cent ident base i raw a'"
  using assms(1) assms(2)[of 0] assms(2)[of 1] assms(2)[of 2] assms(2)[of 3]
  by (auto simp: groupDone_def calibrated_def uncalibrated_def)

text \<open>After \<^verbatim>\<open>CalQvec\<close> has appended a group of 24 entries at \<open>base\<close>, the corrections leave
  every earlier entry alone and bring each of the six sub-systems into its final state.\<close>

lemma corrections_group:
  assumes r: "corrections h st cent ident base (pushQvec l a) = Inr a'"
    and len: "length (QvecRe a) = base" "length (QvecIm a) = base"
  shows "length (QvecRe a') = base + 24 \<and> length (QvecIm a') = base + 24
     \<and> QvecAmp a' = QvecAmp (pushQvec l a) \<and> PosLabel a' = PosLabel (pushQvec l a) \<and> NegLabel a' = NegLabel (pushQvec l a)
     \<and> (\<forall>j<base. entry (QvecRe a') (QvecIm a') j = entry (QvecRe a) (QvecIm a) j)
     \<and> (\<forall>i<6. groupDone h st cent ident base i (sixQ l ! i) a')"
proof (cases "cent < 80")
  case True
  let ?p = "pushQvec l a"
  from True r have in_ident: "ident < length (objQvec st)"
    by (auto simp: corrections_def atE_def split: if_splits)
  with True r obtain obj where obj: "objQvec st ! ident = Some obj"
    and loop: "forLoop (corrBody h obj cent base) [0..<6] ?p = Inr a'"
    by (auto simp: corrections_def split: option.splits)
  have "\<forall>i\<in>set [0..<6]. base + i * 4 + 3 < length (QvecRe ?p) \<and> base + i * 4 + 3 < length (QvecIm ?p)"
    using len by (auto simp: pushQvec_length)
  from corrLoop_ok[OF distinct_upt this, where h=h and obj=obj and cent=cent] loop
  have le: "length (QvecRe a') = length (QvecRe ?p)" "length (QvecIm a') = length (QvecIm ?p)"
    and sm: "QvecAmp a' = QvecAmp ?p" "PosLabel a' = PosLabel ?p" "NegLabel a' = NegLabel ?p"
    and cas: "\<And>i. i < 6 \<Longrightarrow>
            entry (QvecRe a') (QvecIm a') (base + i * 4 + 1)
              = recentered h obj (static_cast_int cent + 1) i (entry (QvecRe ?p) (QvecIm ?p) (base + i * 4 + 1))
          \<and> entry (QvecRe a') (QvecIm a') (base + i * 4 + 2)
              = twisted h obj (static_cast_int cent + 1) i (entry (QvecRe ?p) (QvecIm ?p) (base + i * 4 + 2))
          \<and> entry (QvecRe a') (QvecIm a') (base + i * 4 + 3)
              = rescaled h obj (static_cast_int cent + 1) i (entry (QvecRe ?p) (QvecIm ?p) (base + i * 4 + 3))"
    and un: "\<And>j. (\<forall>i\<in>set [0..<6]. j \<noteq> base + i * 4 + 1 \<and> j \<noteq> base + i * 4 + 2 \<and> j \<noteq> base + i * 4 + 3)
               \<Longrightarrow> entry (QvecRe a') (QvecIm a') j = entry (QvecRe ?p) (QvecIm ?p) j"
    by auto
  have "groupDone h st cent ident base i (sixQ l ! i) a'" if i: "i < 6" for i
  proof -
    have "entry (QvecRe a') (QvecIm a') (base + i * 4) = entry (QvecRe ?p) (QvecIm ?p) (base + i * 4)"
    proof (rule un, rule ballI)
      fix i' assume "i' \<in> set [0..<6]"
      show "base + i * 4 \<noteq> base + i' * 4 + 1 \<and> base + i * 4 \<noteq> base + i' * 4 + 2 \<and> base + i * 4 \<noteq> base + i' * 4 + 3"
        by presburger
    qed
    with cas[OF i] in_ident obj True
      pushQvec_new[OF len i, of 0 l] pushQvec_new[OF len i, of 1 l]
      pushQvec_new[OF len i, of 2 l] pushQvec_new[OF len i, of 3 l]
    show ?thesis by (simp add: groupDone_def calibrated_def)
  qed
  moreover have "entry (QvecRe a') (QvecIm a') j = entry (QvecRe a) (QvecIm a) j" if "j < base" for j
  proof -
    from that have "\<forall>i\<in>set [0..<6]. j \<noteq> base + i * 4 + 1 \<and> j \<noteq> base + i * 4 + 2 \<and> j \<noteq> base + i * 4 + 3"
      by auto
    from un[OF this] pushQvec_old[of j a l] that len show ?thesis by simp
  qed
  ultimately show ?thesis using le sm len by (simp add: pushQvec_length)
next
  case False
  with r have eq: "a' = pushQvec l a" by (simp add: corrections_def)
  have "groupDone h st cent ident base i (sixQ l ! i) a'" if "i < 6" for i
    using False
      pushQvec_new[OF len that, of 0 l] pushQvec_new[OF len that, of 1 l]
      pushQvec_new[OF len that, of 2 l] pushQvec_new[OF len that, of 3 l]
    by (simp add: groupDone_def uncalibrated_def eq)
  moreover have "entry (QvecRe a') (QvecIm a') j = entry (QvecRe a) (QvecIm a) j" if "j < base" for j
    using pushQvec_old[of j a l] that len by (simp add: eq)
  ultimately show ?thesis using len by (simp add: pushQvec_length eq)
qed

lemma readAt_ok:
  "j < length (QvecRe a) \<Longrightarrow> j < length (QvecIm a) \<Longrightarrow> readAt a j = Inr (entry (QvecRe a) (QvecIm a) j)"
  by (simp add: readAt_def entry_def)

lemma pushDet_ok:
  assumes "base + 24 \<le> length (QvecRe a)" "base + 24 \<le> length (QvecIm a)"
  shows "pushDet a base d =
     Inr (d\<lparr>qvecFT0C := qvecFT0C d @ [entry (QvecRe a) (QvecIm a) (base + 0 * 4 + 3)],
            qvecFT0A := qvecFT0A d @ [entry (QvecRe a) (QvecIm a) (base + 1 * 4 + 3)],
            qvecFT0M := qvecFT0M d @ [entry (QvecRe a) (QvecIm a) (base + 2 * 4 + 3)],
            qvecFV0A := qvecFV0A d @ [entry (QvecRe a) (QvecIm a) (base + 3 * 4 + 3)],
            qvecBPos := qvecBPos d @ [entry (QvecRe a) (QvecIm a) (base + 4 * 4 + 3)],
            qvecBNeg := qvecBNeg d @ [entry (QvecRe a) (QvecIm a) (base + 5 * 4 + 3)]\<rparr>)"
  using assms
  by (simp add: pushDet_def readAt_ok kFT0C_def kFT0A_def kFT0M_def kFV0A_def kBPos_def kBNeg_def)

section \<open>The loop over the harmonics and the harmonic 2\<close>

lemma harmBody_step:
  assumes r: "harmBody cfg h st cent coll tracks n (a, d) = Inr (a', d')"
    and len: "length (QvecRe a) = 24 * n" "length (QvecIm a) = 24 * n"
  shows "\<exists>l. n < length (cfgnMods cfg) \<and> CalQvecLocals cfg h st (cfgnMods cfg ! n) coll tracks = Inr l
     \<and> length (QvecRe a') = 24 * Suc n \<and> length (QvecIm a') = 24 * Suc n
     \<and> (\<forall>j<24 * n. entry (QvecRe a') (QvecIm a') j = entry (QvecRe a) (QvecIm a) j)
     \<and> (\<forall>i<6. groupDone h st cent n (24 * n) i (sixQ l ! i) a')
     \<and> (\<forall>i<6. detVecs d' ! i = detVecs d ! i @ [entry (QvecRe a') (QvecIm a') (24 * n + i * 4 + 3)])"
proof -
  from r have n: "n < length (cfgnMods cfg)"
    by (auto simp: harmBody_def atE_def split: if_splits)
  with r obtain l a2 where l: "CalQvecLocals cfg h st (cfgnMods cfg ! n) coll tracks = Inr l"
    and c: "corrections h st cent n (24 * n) (pushQvec l a) = Inr a2"
    and p: "pushDet a2 (24 * n) d = Inr d'" and eq: "a' = a2"
    by (auto simp: harmBody_def kBNeg_def bindE_eq_Inr CalQvec_Inr)
  from corrections_group[OF c len] have g:
    "length (QvecRe a2) = 24 * n + 24" "length (QvecIm a2) = 24 * n + 24"
    "\<forall>j<24 * n. entry (QvecRe a2) (QvecIm a2) j = entry (QvecRe a) (QvecIm a) j"
    "\<forall>i<6. groupDone h st cent n (24 * n) i (sixQ l ! i) a2"
    by auto
  from g(1,2) have "24 * n + 24 \<le> length (QvecRe a2)" "24 * n + 24 \<le> length (QvecIm a2)" by auto
  from pushDet_ok[OF this, of d] p have d':
    "d' = d\<lparr>qvecFT0C := qvecFT0C d @ [entry (QvecRe a2) (QvecIm a2) (24 * n + 0 * 4 + 3)],
            qvecFT0A := qvecFT0A d @ [entry (QvecRe a2) (QvecIm a2) (24 * n + 1 * 4 + 3)],
            qvecFT0M := qvecFT0M d @ [entry (QvecRe a2) (QvecIm a2) (24 * n + 2 * 4 + 3)],
            qvecFV0A := qvecFV0A d @ [entry (QvecRe a2) (QvecIm a2) (24 * n + 3 * 4 + 3)],
            qvecBPos := qvecBPos d @ [entry (QvecRe a2) (QvecIm a2) (24 * n + 4 * 4 + 3)],
            qvecBNeg := qvecBNeg d @ [entry (QvecRe a2) (QvecIm a2) (24 * n + 5 * 4 + 3)]\<rparr>"
    by simp
  have dv: "detVecs d' ! i = detVecs d ! i @ [entry (QvecRe a2) (QvecIm a2) (24 * n + i * 4 + 3)]" if "i < 6" for i
    using less6[OF that] by (auto simp: d' detVecs_def)
  show ?thesis using n l g dv by (auto simp: eq)
qed

lemma harmLoop_inv:
  assumes "forLoop (harmBody cfg h st cent coll tracks) [0..<n] (noArrays, noDetVecs) = Inr (a, d)"
  shows "length (QvecRe a) = 24 * n \<and> length (QvecIm a) = 24 * n
     \<and> (\<forall>i<6. length (detVecs d ! i) = n)
     \<and> (\<forall>ident<n. \<exists>l. ident < length (cfgnMods cfg)
            \<and> CalQvecLocals cfg h st (cfgnMods cfg ! ident) coll tracks = Inr l
            \<and> (\<forall>i<6. groupDone h st cent ident (24 * ident) i (sixQ l ! i) a
                      \<and> detVecs d ! i ! ident = entry (QvecRe a) (QvecIm a) (24 * ident + i * 4 + 3)))"
  using assms
proof (induction n arbitrary: a d)
  case 0
  have "length (detVecs noDetVecs ! i) = 0" if "i < 6" for i
    using less6[OF that] by (auto simp: detVecs_def noDetVecs_def)
  with 0 show ?case by (auto simp: noArrays_def)
next
  case (Suc n)
  from Suc.prems obtain a0 d0 where
    prev: "forLoop (harmBody cfg h st cent coll tracks) [0..<n] (noArrays, noDetVecs) = Inr (a0, d0)"
    and step: "harmBody cfg h st cent coll tracks n (a0, d0) = Inr (a, d)"
    by (auto simp: forLoop_snoc)
  from Suc.IH[OF prev] have
    len0: "length (QvecRe a0) = 24 * n" "length (QvecIm a0) = 24 * n"
    and dl0: "\<And>i. i < 6 \<Longrightarrow> length (detVecs d0 ! i) = n"
    and old: "\<And>ident. ident < n \<Longrightarrow> \<exists>l. ident < length (cfgnMods cfg)
            \<and> CalQvecLocals cfg h st (cfgnMods cfg ! ident) coll tracks = Inr l
            \<and> (\<forall>i<6. groupDone h st cent ident (24 * ident) i (sixQ l ! i) a0
                      \<and> detVecs d0 ! i ! ident = entry (QvecRe a0) (QvecIm a0) (24 * ident + i * 4 + 3))"
    by auto
  from harmBody_step[OF step len0] obtain l where
    n: "n < length (cfgnMods cfg)" and l: "CalQvecLocals cfg h st (cfgnMods cfg ! n) coll tracks = Inr l"
    and len: "length (QvecRe a) = 24 * Suc n" "length (QvecIm a) = 24 * Suc n"
    and keep: "\<And>j. j < 24 * n \<Longrightarrow> entry (QvecRe a) (QvecIm a) j = entry (QvecRe a0) (QvecIm a0) j"
    and grp: "\<And>i. i < 6 \<Longrightarrow> groupDone h st cent n (24 * n) i (sixQ l ! i) a"
    and dv: "\<And>i. i < 6 \<Longrightarrow> detVecs d ! i = detVecs d0 ! i @ [entry (QvecRe a) (QvecIm a) (24 * n + i * 4 + 3)]"
    by blast
  have dl: "length (detVecs d ! i) = Suc n" if "i < 6" for i
    using dv[OF that] dl0[OF that] by simp
  have new: "\<exists>l. ident < length (cfgnMods cfg)
            \<and> CalQvecLocals cfg h st (cfgnMods cfg ! ident) coll tracks = Inr l
            \<and> (\<forall>i<6. groupDone h st cent ident (24 * ident) i (sixQ l ! i) a
                      \<and> detVecs d ! i ! ident = entry (QvecRe a) (QvecIm a) (24 * ident + i * 4 + 3))"
    if "ident < Suc n" for ident
  proof (cases "ident = n")
    case True
    have "detVecs d ! i ! n = entry (QvecRe a) (QvecIm a) (24 * n + i * 4 + 3)" if "i < 6" for i
      using dv[OF that] dl0[OF that] by (simp add: nth_append)
    with n l grp show ?thesis unfolding True by blast
  next
    case False
    with that have lt: "ident < n" by simp
    from old[OF lt] obtain l0 where
      o: "ident < length (cfgnMods cfg)" "CalQvecLocals cfg h st (cfgnMods cfg ! ident) coll tracks = Inr l0"
      and og: "\<And>i. i < 6 \<Longrightarrow> groupDone h st cent ident (24 * ident) i (sixQ l0 ! i) a0"
      and od: "\<And>i. i < 6 \<Longrightarrow> detVecs d0 ! i ! ident = entry (QvecRe a0) (QvecIm a0) (24 * ident + i * 4 + 3)"
      by blast
    have inb: "24 * ident + i * 4 + k < 24 * n" if "i < 6" "k < 4" for i k
      using that lt by simp
    have g: "groupDone h st cent ident (24 * ident) i (sixQ l0 ! i) a" if "i < 6" for i
      by (rule groupDone_cong[OF og[OF that]]) (use keep inb[OF that] in simp)
    have dd: "detVecs d ! i ! ident = entry (QvecRe a) (QvecIm a) (24 * ident + i * 4 + 3)" if "i < 6" for i
      using dv[OF that] dl0[OF that] od[OF that] lt keep[OF inb[OF that, of 3]]
      by (simp add: nth_append)
    from o g dd show ?thesis by blast
  qed
  from len dl new show ?case by blast
qed

lemma psi2_result:
  assumes r: "psi2 cfg h st cent coll tracks = Inr (a, d)"
  shows "\<exists>l. CalQvecLocals cfg h st 2 coll tracks = Inr l
     \<and> length (QvecRe a) = 24 \<and> length (QvecIm a) = 24
     \<and> QvecAmp a = [sumAmplFT0C l, sumAmplFT0A l, sumAmplFT0M l, sumAmplFV0A l, real (nTrkBPos l), real (nTrkBNeg l)]
     \<and> PosLabel a = TrkBPosLabel l \<and> NegLabel a = TrkBNegLabel l
     \<and> (\<forall>i<6. groupDone h st cent 0 0 i (sixQ l ! i) a)
     \<and> qvecFT0C d = [entry (QvecRe a) (QvecIm a) (kFT0C * 4 + 3)] \<and> qvecFT0A d = [entry (QvecRe a) (QvecIm a) (kFT0A * 4 + 3)]
     \<and> qvecFT0M d = [entry (QvecRe a) (QvecIm a) (kFT0M * 4 + 3)] \<and> qvecFV0A d = [entry (QvecRe a) (QvecIm a) (kFV0A * 4 + 3)]
     \<and> qvecBPos d = [entry (QvecRe a) (QvecIm a) (kBPos * 4 + 3)] \<and> qvecBNeg d = [entry (QvecRe a) (QvecIm a) (kBNeg * 4 + 3)]"
proof -
  from r obtain l a2 where l: "CalQvecLocals cfg h st 2 coll tracks = Inr l"
    and c: "corrections h st cent 0 0 (pushQvec l noArrays) = Inr a2"
    and p: "pushDet a2 0 noDetVecs = Inr d" and eq: "a = a2"
    by (auto simp: psi2_def bindE_eq_Inr CalQvec_Inr)
  have len: "length (QvecRe noArrays) = 0" "length (QvecIm noArrays) = 0"
    by (simp_all add: noArrays_def)
  from corrections_group[OF c len] have g:
    "length (QvecRe a2) = 24" "length (QvecIm a2) = 24"
    "QvecAmp a2 = QvecAmp (pushQvec l noArrays)" "PosLabel a2 = PosLabel (pushQvec l noArrays)"
    "NegLabel a2 = NegLabel (pushQvec l noArrays)"
    "\<forall>i<6. groupDone h st cent 0 0 i (sixQ l ! i) a2"
    by auto
  from g(1,2) have "0 + 24 \<le> length (QvecRe a2)" "0 + 24 \<le> length (QvecIm a2)" by auto
  from pushDet_ok[OF this, of noDetVecs] p have d:
    "d = noDetVecs\<lparr>qvecFT0C := qvecFT0C noDetVecs @ [entry (QvecRe a2) (QvecIm a2) (0 + 0 * 4 + 3)],
            qvecFT0A := qvecFT0A noDetVecs @ [entry (QvecRe a2) (QvecIm a2) (0 + 1 * 4 + 3)],
            qvecFT0M := qvecFT0M noDetVecs @ [entry (QvecRe a2) (QvecIm a2) (0 + 2 * 4 + 3)],
            qvecFV0A := qvecFV0A noDetVecs @ [entry (QvecRe a2) (QvecIm a2) (0 + 3 * 4 + 3)],
            qvecBPos := qvecBPos noDetVecs @ [entry (QvecRe a2) (QvecIm a2) (0 + 4 * 4 + 3)],
            qvecBNeg := qvecBNeg noDetVecs @ [entry (QvecRe a2) (QvecIm a2) (0 + 5 * 4 + 3)]\<rparr>"
    by simp
  show ?thesis
    using l g unfolding eq d
    by (simp add: noDetVecs_def pushQvec_def noArrays_def kFT0C_def kFT0A_def kFT0M_def kFV0A_def kBPos_def kBNeg_def)
qed

lemma detRow_Inr:
  "detRow used cal qvec amp k = Inr r \<Longrightarrow>
     r = (if used then Some (cal, fst (qvec ! 0), snd (qvec ! 0), amp ! k) else None)"
  by (auto simp: detRow_def atE_def bindE_eq_Inr split: if_splits)

lemma trkRow_Inr:
  "trkRow used cal qvec amp k labels = Inr r \<Longrightarrow>
     r = (if used then Some (cal, fst (qvec ! 0), snd (qvec ! 0), amp ! k, labels) else None)"
  by (auto simp: trkRow_def atE_def bindE_eq_Inr split: if_splits)

lemma process_Inr:
  assumes "process cfg ccdb h st0 coll tracks = Inr (st, T)"
  shows "\<exists>cent cal vecs a d. reload cfg ccdb st0 coll = Inr st \<and> centrality cfg coll = Inr (cent, cal)
     \<and> harmLoop cfg h st cent coll tracks = Inr vecs \<and> psi2 cfg h st cent coll tracks = Inr (a, d)
     \<and> qVector T = (cent, cal, QvecRe a, QvecIm a, QvecAmp a)
     \<and> qVectorFT0C T = (if useDetector cfg ''QvectorFT0Cs'' then Some (cal, fst (qvecFT0C d ! 0), snd (qvecFT0C d ! 0), QvecAmp a ! kFT0C) else None)
     \<and> qVectorFT0A T = (if useDetector cfg ''QvectorFT0As'' then Some (cal, fst (qvecFT0A d ! 0), snd (qvecFT0A d ! 0), QvecAmp a ! kFT0A) else None)
     \<and> qVectorFT0M T = (if useDetector cfg ''QvectorFT0Ms'' then Some (cal, fst (qvecFT0M d ! 0), snd (qvecFT0M d ! 0), QvecAmp a ! kFT0M) else None)
     \<and> qVectorFV0A T = (if useDetector cfg ''QvectorFV0As'' then Some (cal, fst (qvecFV0A d ! 0), snd (qvecFV0A d ! 0), QvecAmp a ! kFV0A) else None)
     \<and> qVectorBPos T = (if useDetector cfg ''QvectorBPoss'' then Some (cal, fst (qvecBPos d ! 0), snd (qvecBPos d ! 0), QvecAmp a ! kBPos, PosLabel a) else None)
     \<and> qVectorBNeg T = (if useDetector cfg ''QvectorBNegs'' then Some (cal, fst (qvecBNeg d ! 0), snd (qvecBNeg d ! 0), QvecAmp a ! kBNeg, NegLabel a) else None)"
proof -
  from assms obtain cent cal vecs a d rC rA rM rV rP rN where
    1: "reload cfg ccdb st0 coll = Inr st" "centrality cfg coll = Inr (cent, cal)"
       "harmLoop cfg h st cent coll tracks = Inr vecs" "psi2 cfg h st cent coll tracks = Inr (a, d)"
    and rows: "detRow (useDetector cfg ''QvectorFT0Cs'') cal (qvecFT0C d) (QvecAmp a) kFT0C = Inr rC"
       "detRow (useDetector cfg ''QvectorFT0As'') cal (qvecFT0A d) (QvecAmp a) kFT0A = Inr rA"
       "detRow (useDetector cfg ''QvectorFT0Ms'') cal (qvecFT0M d) (QvecAmp a) kFT0M = Inr rM"
       "detRow (useDetector cfg ''QvectorFV0As'') cal (qvecFV0A d) (QvecAmp a) kFV0A = Inr rV"
       "trkRow (useDetector cfg ''QvectorBPoss'') cal (qvecBPos d) (QvecAmp a) kBPos (PosLabel a) = Inr rP"
       "trkRow (useDetector cfg ''QvectorBNegs'') cal (qvecBNeg d) (QvecAmp a) kBNeg (NegLabel a) = Inr rN"
    and T: "T = \<lparr>qVector = (cent, cal, QvecRe a, QvecIm a, QvecAmp a),
                 qVectorFT0C = rC, qVectorFT0A = rA, qVectorFT0M = rM,
                 qVectorFV0A = rV, qVectorBPos = rP, qVectorBNeg = rN\<rparr>"
    by (auto simp: process_def bindE_eq_Inr split: prod.splits)
  show ?thesis
    using 1 detRow_Inr[OF rows(1)] detRow_Inr[OF rows(2)] detRow_Inr[OF rows(3)] detRow_Inr[OF rows(4)]
      trkRow_Inr[OF rows(5)] trkRow_Inr[OF rows(6)]
    unfolding T by simp
qed

lemma centrality_window:
  assumes "atE [centFT0M coll, centFT0A coll, centFT0C coll, centFV0A coll] (cfgCentEsti cfg) = Inr c"
  shows "centrality cfg coll = Inr (if c < 0 \<or> c > 80 then (110, False) else (c, True))"
  using assms by (simp add: centrality_def)

section \<open>The sums of the specification\<close>













section \<open>The outputs of process\<close>

lemma groupDone_calibrated:
  assumes g: "\<forall>i<6. groupDone h st c ident base i (raw i) a" and w: "0 \<le> c" "c < 80"
  shows "\<exists>obj. ident < length (objQvec st) \<and> objQvec st ! ident = Some obj
     \<and> (\<forall>i<6. calibrated h obj (\<lfloor>c\<rfloor> + 1) base i (raw i) (QvecRe a) (QvecIm a))"
proof -
  from w have bin: "static_cast_int c + 1 = \<lfloor>c\<rfloor> + 1"
    by (simp add: static_cast_int_def)
  from g w have each: "\<And>i. i < 6 \<Longrightarrow> \<exists>obj. ident < length (objQvec st) \<and> objQvec st ! ident = Some obj
      \<and> calibrated h obj (\<lfloor>c\<rfloor> + 1) base i (raw i) (QvecRe a) (QvecIm a)"
    unfolding groupDone_def bin by simp
  from each[of 0] obtain obj where o: "ident < length (objQvec st)" "objQvec st ! ident = Some obj"
    by auto
  have "calibrated h obj (\<lfloor>c\<rfloor> + 1) base i (raw i) (QvecRe a) (QvecIm a)" if "i < 6" for i
    using each[OF that] o by auto
  with o show ?thesis by blast
qed

lemma fourthCopy_process:
  assumes "process cfg ccdb h st0 coll tracks = Inr (st, T)"
  shows "fourthCopyEmitted cfg T"
proof -
  from process_Inr[OF assms] obtain cent cal a d where
    p: "psi2 cfg h st cent coll tracks = Inr (a, d)"
    and q: "qVector T = (cent, cal, QvecRe a, QvecIm a, QvecAmp a)"
    and rows: "qVectorFT0C T = (if useDetector cfg ''QvectorFT0Cs'' then Some (cal, fst (qvecFT0C d ! 0), snd (qvecFT0C d ! 0), QvecAmp a ! kFT0C) else None)"
      "qVectorFT0A T = (if useDetector cfg ''QvectorFT0As'' then Some (cal, fst (qvecFT0A d ! 0), snd (qvecFT0A d ! 0), QvecAmp a ! kFT0A) else None)"
      "qVectorFT0M T = (if useDetector cfg ''QvectorFT0Ms'' then Some (cal, fst (qvecFT0M d ! 0), snd (qvecFT0M d ! 0), QvecAmp a ! kFT0M) else None)"
      "qVectorFV0A T = (if useDetector cfg ''QvectorFV0As'' then Some (cal, fst (qvecFV0A d ! 0), snd (qvecFV0A d ! 0), QvecAmp a ! kFV0A) else None)"
      "qVectorBPos T = (if useDetector cfg ''QvectorBPoss'' then Some (cal, fst (qvecBPos d ! 0), snd (qvecBPos d ! 0), QvecAmp a ! kBPos, PosLabel a) else None)"
      "qVectorBNeg T = (if useDetector cfg ''QvectorBNegs'' then Some (cal, fst (qvecBNeg d ! 0), snd (qvecBNeg d ! 0), QvecAmp a ! kBNeg, NegLabel a) else None)"
    by blast
  from psi2_result[OF p] have d:
    "qvecFT0C d = [entry (QvecRe a) (QvecIm a) (kFT0C * 4 + 3)]" "qvecFT0A d = [entry (QvecRe a) (QvecIm a) (kFT0A * 4 + 3)]"
    "qvecFT0M d = [entry (QvecRe a) (QvecIm a) (kFT0M * 4 + 3)]" "qvecFV0A d = [entry (QvecRe a) (QvecIm a) (kFV0A * 4 + 3)]"
    "qvecBPos d = [entry (QvecRe a) (QvecIm a) (kBPos * 4 + 3)]" "qvecBNeg d = [entry (QvecRe a) (QvecIm a) (kBNeg * 4 + 3)]"
    by auto
  show ?thesis
    unfolding fourthCopyEmitted_def q rows d by (simp add: entry_def)
qed


text \<open>What the vectors hold when \<^verbatim>\<open>process\<close> has returned for a centrality inside the
  window.\<close>

lemma cascade_of_process:
  assumes run: "process cfg ccdb h st0 coll tracks = Inr (st, T)"
    and est: "atE [centFT0M coll, centFT0A coll, centFT0C coll, centFV0A coll] (cfgCentEsti cfg) = Inr c"
    and win: "0 \<le> c" "c < 80"
  shows "(\<exists>a d. harmLoop cfg h st c coll tracks = Inr (a, d)
           \<and> (\<forall>ident<length (cfgnMods cfg). \<exists>l obj.
                 CalQvecLocals cfg h st (cfgnMods cfg ! ident) coll tracks = Inr l
               \<and> ident < length (objQvec st) \<and> objQvec st ! ident = Some obj
               \<and> (\<forall>i<6. calibrated h obj (\<lfloor>c\<rfloor> + 1) (24 * ident) i (sixQ l ! i) (QvecRe a) (QvecIm a)
                        \<and> detVecs d ! i ! ident = rescaled h obj (\<lfloor>c\<rfloor> + 1) i (sixQ l ! i))))
       \<and> (\<exists>re im amp l obj. qVector T = (c, True, re, im, amp)
               \<and> CalQvecLocals cfg h st 2 coll tracks = Inr l
               \<and> 0 < length (objQvec st) \<and> objQvec st ! 0 = Some obj
               \<and> (\<forall>i<6. calibrated h obj (\<lfloor>c\<rfloor> + 1) 0 i (sixQ l ! i) re im))"
proof
  from process_Inr[OF run] obtain cent cal vecs a2 d2 where
    cen: "centrality cfg coll = Inr (cent, cal)"
    and hl: "harmLoop cfg h st cent coll tracks = Inr vecs"
    and p2: "psi2 cfg h st cent coll tracks = Inr (a2, d2)"
    and qv: "qVector T = (cent, cal, QvecRe a2, QvecIm a2, QvecAmp a2)"
    by blast
  from centrality_window[OF est] cen win have cc: "cent = c" "cal = True"
    by auto
  obtain a d where vecs: "vecs = (a, d)" by (cases vecs)
  from hl have loop: "forLoop (harmBody cfg h st c coll tracks) [0..<length (cfgnMods cfg)] (noArrays, noDetVecs) = Inr (a, d)"
    by (simp add: harmLoop_def vecs cc)
  from harmLoop_inv[OF loop] have inv: "\<And>ident. ident < length (cfgnMods cfg) \<Longrightarrow>
      \<exists>l. CalQvecLocals cfg h st (cfgnMods cfg ! ident) coll tracks = Inr l
            \<and> (\<forall>i<6. groupDone h st c ident (24 * ident) i (sixQ l ! i) a
                      \<and> detVecs d ! i ! ident = entry (QvecRe a) (QvecIm a) (24 * ident + i * 4 + 3))"
    by blast
  have "\<exists>l obj. CalQvecLocals cfg h st (cfgnMods cfg ! ident) coll tracks = Inr l
               \<and> ident < length (objQvec st) \<and> objQvec st ! ident = Some obj
               \<and> (\<forall>i<6. calibrated h obj (\<lfloor>c\<rfloor> + 1) (24 * ident) i (sixQ l ! i) (QvecRe a) (QvecIm a)
                        \<and> detVecs d ! i ! ident = rescaled h obj (\<lfloor>c\<rfloor> + 1) i (sixQ l ! i))"
    if "ident < length (cfgnMods cfg)" for ident
  proof -
    from inv[OF that] obtain l where l: "CalQvecLocals cfg h st (cfgnMods cfg ! ident) coll tracks = Inr l"
      and g: "\<forall>i<6. groupDone h st c ident (24 * ident) i (sixQ l ! i) a"
      and dv: "\<And>i. i < 6 \<Longrightarrow> detVecs d ! i ! ident = entry (QvecRe a) (QvecIm a) (24 * ident + i * 4 + 3)"
      by blast
    from groupDone_calibrated[OF g win] obtain obj where
      o: "ident < length (objQvec st)" "objQvec st ! ident = Some obj"
      and cal: "\<And>i. i < 6 \<Longrightarrow> calibrated h obj (\<lfloor>c\<rfloor> + 1) (24 * ident) i (sixQ l ! i) (QvecRe a) (QvecIm a)"
      by blast
    have "detVecs d ! i ! ident = rescaled h obj (\<lfloor>c\<rfloor> + 1) i (sixQ l ! i)" if "i < 6" for i
      using dv[OF that] cal[OF that] by (simp add: calibrated_def)
    with l o cal show ?thesis by blast
  qed
  with hl show "\<exists>a d. harmLoop cfg h st c coll tracks = Inr (a, d)
           \<and> (\<forall>ident<length (cfgnMods cfg). \<exists>l obj.
                 CalQvecLocals cfg h st (cfgnMods cfg ! ident) coll tracks = Inr l
               \<and> ident < length (objQvec st) \<and> objQvec st ! ident = Some obj
               \<and> (\<forall>i<6. calibrated h obj (\<lfloor>c\<rfloor> + 1) (24 * ident) i (sixQ l ! i) (QvecRe a) (QvecIm a)
                        \<and> detVecs d ! i ! ident = rescaled h obj (\<lfloor>c\<rfloor> + 1) i (sixQ l ! i)))"
    unfolding vecs cc by blast
  from psi2_result[OF p2] obtain l where l: "CalQvecLocals cfg h st 2 coll tracks = Inr l"
    and g: "\<forall>i<6. groupDone h st c 0 0 i (sixQ l ! i) a2"
    unfolding cc by blast
  from groupDone_calibrated[OF g win] obtain obj where
    "0 < length (objQvec st)" "objQvec st ! 0 = Some obj"
    "\<forall>i<6. calibrated h obj (\<lfloor>c\<rfloor> + 1) 0 i (sixQ l ! i) (QvecRe a2) (QvecIm a2)"
    by blast
  with l qv show "\<exists>re im amp l obj. qVector T = (c, True, re, im, amp)
               \<and> CalQvecLocals cfg h st 2 coll tracks = Inr l
               \<and> 0 < length (objQvec st) \<and> objQvec st ! 0 = Some obj
               \<and> (\<forall>i<6. calibrated h obj (\<lfloor>c\<rfloor> + 1) 0 i (sixQ l ! i) re im)"
    unfolding cc by blast
qed

section \<open>When process returns\<close>

lemma corrections_returns:
  assumes "ident < length (objQvec st)" "objQvec st ! ident = Some obj"
    "base + 24 \<le> length (QvecRe a)" "base + 24 \<le> length (QvecIm a)"
  shows "\<exists>a'. corrections h st cent ident base a = Inr a'"
proof (cases "cent < 80")
  case True
  have "\<forall>i\<in>set [0..<6]. base + i * 4 + 3 < length (QvecRe a) \<and> base + i * 4 + 3 < length (QvecIm a)"
    using assms by auto
  from corrLoop_ok[OF distinct_upt this, where h=h and obj=obj and cent=cent]
  show ?thesis using True assms by (auto simp: corrections_def)
next
  case False
  then show ?thesis by (simp add: corrections_def)
qed

lemma harmBody_returns:
  assumes rng: "inRange st coll" and n: "n < length (cfgnMods cfg)"
    and tab: "n < length (objQvec st)" "objQvec st ! n = Some obj"
    and len: "length (QvecRe a) = 24 * n" "length (QvecIm a) = 24 * n"
  shows "\<exists>a' d'. harmBody cfg h st cent coll tracks n (a, d) = Inr (a', d')"
proof -
  from CalQvecLocals_returns[OF rng] obtain l where
    l: "CalQvecLocals cfg h st (cfgnMods cfg ! n) coll tracks = Inr l" by blast
  then have c: "CalQvec cfg h st (cfgnMods cfg ! n) coll tracks a = Inr (pushQvec l a)"
    by (simp add: CalQvec_Inr)
  have "24 * n + 24 \<le> length (QvecRe (pushQvec l a))" "24 * n + 24 \<le> length (QvecIm (pushQvec l a))"
    using len by (simp_all add: pushQvec_length)
  from corrections_returns[OF tab this] obtain a' where
    a': "corrections h st cent n (24 * n) (pushQvec l a) = Inr a'" by blast
  from corrections_group[OF a' len] have "24 * n + 24 \<le> length (QvecRe a')" "24 * n + 24 \<le> length (QvecIm a')"
    by simp_all
  from pushDet_ok[OF this, of d] show ?thesis
    using n c a' by (simp add: harmBody_def kBNeg_def)
qed

lemma harmLoop_returns:
  assumes rng: "inRange st coll" and n: "n \<le> length (cfgnMods cfg)"
    and tabs: "length (objQvec st) = length (cfgnMods cfg)" "\<forall>p\<in>set (objQvec st). p \<noteq> None"
  shows "\<exists>a d. forLoop (harmBody cfg h st cent coll tracks) [0..<n] (noArrays, noDetVecs) = Inr (a, d)"
  using n
proof (induction n)
  case 0
  show ?case by simp
next
  case (Suc n)
  then obtain a d where
    prev: "forLoop (harmBody cfg h st cent coll tracks) [0..<n] (noArrays, noDetVecs) = Inr (a, d)"
    by auto
  from harmLoop_inv[OF prev] have len: "length (QvecRe a) = 24 * n" "length (QvecIm a) = 24 * n"
    by simp_all
  from Suc.prems tabs have t: "n < length (objQvec st)" by simp
  with tabs(2) obtain obj where o: "objQvec st ! n = Some obj"
    by (metis nth_mem not_None_eq)
  from Suc.prems have "n < length (cfgnMods cfg)" by simp
  from harmBody_returns[OF rng this t o len, where h=h and cent=cent and tracks=tracks and d=d]
  obtain a' d' where "harmBody cfg h st cent coll tracks n (a, d) = Inr (a', d')" by blast
  with prev have "forLoop (harmBody cfg h st cent coll tracks) ([0..<n] @ [n]) (noArrays, noDetVecs) = Inr (a', d')"
    unfolding forLoop_snoc by blast
  then show ?case by auto
qed

lemma psi2_returns:
  assumes rng: "inRange st coll" and tab: "0 < length (objQvec st)" "objQvec st ! 0 = Some obj"
  shows "\<exists>a d. psi2 cfg h st cent coll tracks = Inr (a, d)"
proof -
  from CalQvecLocals_returns[OF rng] obtain l where
    l: "CalQvecLocals cfg h st 2 coll tracks = Inr l" by blast
  then have c: "CalQvec cfg h st 2 coll tracks noArrays = Inr (pushQvec l noArrays)"
    by (simp add: CalQvec_Inr)
  have len: "length (QvecRe noArrays) = 0" "length (QvecIm noArrays) = 0"
    by (simp_all add: noArrays_def)
  have "0 + 24 \<le> length (QvecRe (pushQvec l noArrays))" "0 + 24 \<le> length (QvecIm (pushQvec l noArrays))"
    by (simp_all add: pushQvec_length)
  from corrections_returns[OF tab this] obtain a' where
    a': "corrections h st cent 0 0 (pushQvec l noArrays) = Inr a'" by blast
  from corrections_group[OF a' len] have "0 + 24 \<le> length (QvecRe a')" "0 + 24 \<le> length (QvecIm a')"
    by simp_all
  from pushDet_ok[OF this, of noDetVecs] show ?thesis
    using c a' by (simp add: psi2_def)
qed

lemma process_returns:
  assumes rl: "reload cfg ccdb st0 coll = Inr st" and rng: "inRange st coll"
    and est: "cfgCentEsti cfg < 4"
    and tabs: "length (objQvec st) = length (cfgnMods cfg)" "cfgnMods cfg \<noteq> []" "\<forall>p\<in>set (objQvec st). p \<noteq> None"
  shows "\<exists>T. process cfg ccdb h st0 coll tracks = Inr (st, T)"
proof -
  from est have "atE [centFT0M coll, centFT0A coll, centFT0C coll, centFV0A coll] (cfgCentEsti cfg)
      = Inr ([centFT0M coll, centFT0A coll, centFT0C coll, centFV0A coll] ! cfgCentEsti cfg)"
    by simp
  from centrality_window[OF this] have "\<exists>p. centrality cfg coll = Inr p" by blast
  then obtain cent cal where cen: "centrality cfg coll = Inr (cent, cal)"
    by (metis surj_pair)
  from harmLoop_returns[OF rng le_refl tabs(1,3), where h=h and cent=cent and tracks=tracks]
  obtain vecs where hl: "harmLoop cfg h st cent coll tracks = Inr vecs"
    by (auto simp: harmLoop_def)
  from tabs have t: "0 < length (objQvec st)" by simp
  with tabs(3) obtain obj where o: "objQvec st ! 0 = Some obj"
    by (metis nth_mem not_None_eq)
  from psi2_returns[OF rng t o, where cfg=cfg and h=h and cent=cent and tracks=tracks]
  obtain a d where p: "psi2 cfg h st cent coll tracks = Inr (a, d)" by blast
  from psi2_result[OF p] have amp: "length (QvecAmp a) = 6"
    and dv: "qvecFT0C d \<noteq> []" "qvecFT0A d \<noteq> []" "qvecFT0M d \<noteq> []" "qvecFV0A d \<noteq> []"
      "qvecBPos d \<noteq> []" "qvecBNeg d \<noteq> []"
    by auto
  show ?thesis
    using rl cen hl p amp dv
    by (simp add: process_def detRow_def trkRow_def kFT0C_def kFT0A_def kFT0M_def kFV0A_def kBPos_def kBNeg_def)
qed

section \<open>The weights loader\<close>

lemma weightRows_map:
  "weightRows st collision tracks =
     map (\<lambda>track. (case ph st of
                       Some hist \<Rightarrow> hist [multiplicity collision, 0, trackPhi track, trackEta track, posZ collision]
                     | None \<Rightarrow> 1, 1)) tracks"
  by (induction tracks) (simp_all add: Let_def)

lemma newRun_returns:
  assumes "pf st \<noteq> None \<or> useCCDB st"
  shows "\<exists>st'. newRun cfg ccdb collision st = Inr st'"
  using assms by (auto simp: newRun_def Let_def loaderInitCCDB_def split: option.splits)

section \<open>Concrete runs\<close>

lemmas example_defs = exampleHelper_def exampleConfig_def exampleHist_def exampleCCDB_def freshState_def
  loadedState_def exampleCollision_def exampleFT0_def cSideCollision_def noCalibCCDB_def exampleFV0_def

lemmas CalQvec_defs = CalQvec_def CalQvecLocals_def ft0Block_def ft0aPart_def ft0cPart_def ft0mPart_def
  fv0Block_def normTracks_def initLocals_def pushQvec_def ft0aBody_def ft0cBody_def fv0Body_def
  specSumQvectors_def

lemmas process_defs = process_def reload_def initCCDB_def centrality_def harmLoop_def harmBody_def psi2_def
  corrections_def corrBody_def applyAt_def pushDet_def readAt_def detRow_def trkRow_def static_cast_int_def
  kFT0C_def kFT0A_def kFT0M_def kFV0A_def kBPos_def kBNeg_def noDetVecs_def noArrays_def

lemma inRange_example: "inRange loadedState (exampleCollision c)"
  by (simp add: inRange_def ft0InRange_def loadedState_def exampleCollision_def exampleFT0_def)

section \<open>The claims\<close>

text \<open>
  Claim C1 (three-step cascade). Take an event whose centrality \<open>c\<close> (the value of the
  configured estimator) lies in \<open>[0, 80)\<close>, that is well formed for the run, in a run that
  has a calibration histogram for every configured harmonic. Then \<^verbatim>\<open>process\<close> returns, and
  for every configured harmonic and each of the six sub-systems the four copies of the
  group are: the raw Q-vector that \<^verbatim>\<open>CalQvec\<close> computed (copy 0); its recentering (copy 1);
  the twist of its recentering (copy 2); the rescaling of the twist of its recentering
  (copy 3, the one appended to the sub-system's vector). Every correction reads its
  constants from the harmonic's histogram at bin \<open>\<lfloor>c\<rfloor> + 1\<close>, at \<open>(bin, k, i + 1)\<close> with
  \<open>k = 1, 2\<close> for the means, \<open>3, 4\<close> for the twist and \<open>5, 6\<close> for the rescaling. The same
  holds for the vectors of the table of all Q-vectors, which are those of harmonic 2
  corrected with the first histogram, and the reported centrality is \<open>c\<close> with the flag set.
\<close>

theorem C1_three_step_cascade:
  assumes rl: "reload cfg ccdb st0 coll = Inr st" and rng: "inRange st coll"
    and tabs: "length (objQvec st) = length (cfgnMods cfg)" "cfgnMods cfg \<noteq> []"
      "\<forall>p\<in>set (objQvec st). p \<noteq> None"
    and est: "atE [centFT0M coll, centFT0A coll, centFT0C coll, centFV0A coll] (cfgCentEsti cfg) = Inr c"
    and win: "0 \<le> c" "c < 80"
  shows "\<exists>T. process cfg ccdb h st0 coll tracks = Inr (st, T)
       \<and> (\<exists>a d. harmLoop cfg h st c coll tracks = Inr (a, d)
           \<and> (\<forall>ident<length (cfgnMods cfg). \<exists>l obj.
                 CalQvecLocals cfg h st (cfgnMods cfg ! ident) coll tracks = Inr l
               \<and> ident < length (objQvec st) \<and> objQvec st ! ident = Some obj
               \<and> (\<forall>i<6. calibrated h obj (\<lfloor>c\<rfloor> + 1) (24 * ident) i (sixQ l ! i) (QvecRe a) (QvecIm a)
                        \<and> detVecs d ! i ! ident = rescaled h obj (\<lfloor>c\<rfloor> + 1) i (sixQ l ! i))))
       \<and> (\<exists>re im amp l obj. qVector T = (c, True, re, im, amp)
               \<and> CalQvecLocals cfg h st 2 coll tracks = Inr l
               \<and> 0 < length (objQvec st) \<and> objQvec st ! 0 = Some obj
               \<and> (\<forall>i<6. calibrated h obj (\<lfloor>c\<rfloor> + 1) 0 i (sixQ l ! i) re im))"
proof -
  from est have e4: "cfgCentEsti cfg < 4"
    by (auto simp: atE_def split: if_splits)
  from process_returns[OF rl rng e4 tabs, where h=h and tracks=tracks]
  obtain T where run: "process cfg ccdb h st0 coll tracks = Inr (st, T)" by blast
  from cascade_of_process[OF run est win] run show ?thesis by blast
qed

text \<open>The theorem at an event of centrality 10 with one A-side channel: bin 11, and FT0A
  (sub-system 1) in the emitted vectors.\<close>

theorem C1_three_step_cascade_witness:
  "reload exampleConfig exampleCCDB loadedState (exampleCollision 10) = Inr loadedState
   \<and> inRange loadedState (exampleCollision 10)
   \<and> length (objQvec loadedState) = length (cfgnMods exampleConfig) \<and> cfgnMods exampleConfig \<noteq> []
   \<and> objQvec loadedState = [Some exampleHist, Some exampleHist]
   \<and> atE [centFT0M (exampleCollision 10), centFT0A (exampleCollision 10), centFT0C (exampleCollision 10),
           centFV0A (exampleCollision 10)] (cfgCentEsti exampleConfig) = Inr 10
   \<and> (0::real) \<le> 10 \<and> (10::real) < 80
   \<and> (\<exists>T. process exampleConfig exampleCCDB exampleHelper loadedState (exampleCollision 10) [] = Inr (loadedState, T)
        \<and> (\<exists>re im amp l. qVector T = (10, True, re, im, amp)
              \<and> CalQvecLocals exampleConfig exampleHelper loadedState 2 (exampleCollision 10) [] = Inr l
              \<and> calibrated exampleHelper exampleHist 11 0 1 (sixQ l ! 1) re im))"
proof -
  have rl: "reload exampleConfig exampleCCDB loadedState (exampleCollision 10) = Inr loadedState"
    by (simp add: reload_def loadedState_def exampleCollision_def)
  have tabs: "length (objQvec loadedState) = length (cfgnMods exampleConfig)" "cfgnMods exampleConfig \<noteq> []"
    "\<forall>p\<in>set (objQvec loadedState). p \<noteq> None"
    by (simp_all add: loadedState_def exampleConfig_def)
  have est: "atE [centFT0M (exampleCollision 10), centFT0A (exampleCollision 10), centFT0C (exampleCollision 10),
           centFV0A (exampleCollision 10)] (cfgCentEsti exampleConfig) = Inr 10"
    by (simp add: exampleCollision_def exampleConfig_def)
  have w: "(0::real) \<le> 10" "(10::real) < 80" by simp_all
  have o: "objQvec loadedState = [Some exampleHist, Some exampleHist]" by (simp add: loadedState_def)
  have f: "\<lfloor>10::real\<rfloor> + 1 = 11" by simp
  from C1_three_step_cascade[OF rl inRange_example tabs est w, of exampleHelper "[]"] rl inRange_example[of 10] tabs(1,2) est
  show ?thesis unfolding o f by fastforce
qed

text \<open>
  Claim C2 (sentinels \<open>+999\<close> and \<open>-999\<close> for every sub-system, FT0A as FT0C). The code does
  otherwise for FT0A. The event has an FT0 signal on the C side only, so that the amplitude
  sum of FT0A is 0. First run, every sub-system in use: the four FT0A entries (positions 4
  to 7) stay \<open>(0, 0)\<close>, where FT0C with an amplitude sum 0 would get \<open>(999, 999)\<close> (lines 323
  to 326). Second run, only FT0C in use: the switched-off FT0A gets \<open>(999, 999)\<close>, where the
  switched-off FV0A (positions 12 to 15) gets \<open>(-999, -999)\<close>, as a switched-off FT0C would
  (lines 327 to 330); the switched-off FT0M, BPos and BNeg get \<open>(999, 999)\<close> as well.
\<close>

theorem C2_FT0A_sentinels:
  "CalQvec exampleConfig exampleHelper loadedState 2 (cSideCollision 10) [] noArrays =
     Inr \<lparr>QvecRe = [1, 1, 1, 1, 0, 0, 0, 0, 1, 1, 1, 1, - 999, - 999, - 999, - 999,
                   999, 999, 999, 999, 999, 999, 999, 999],
          QvecIm = [0, 0, 0, 0, 0, 0, 0, 0, 0, 0, 0, 0, - 999, - 999, - 999, - 999,
                   999, 999, 999, 999, 999, 999, 999, 999],
          QvecAmp = [50, 0, 50, 0, 0, 0], PosLabel = [], NegLabel = []\<rparr>
   \<and> CalQvec (exampleConfig\<lparr>useDetector := (\<lambda>name. name = ''QvectorFT0Cs'')\<rparr>) exampleHelper loadedState 2
        (cSideCollision 10) [] noArrays =
     Inr \<lparr>QvecRe = [1, 1, 1, 1, 999, 999, 999, 999, 999, 999, 999, 999, - 999, - 999, - 999, - 999,
                   999, 999, 999, 999, 999, 999, 999, 999],
          QvecIm = [0, 0, 0, 0, 999, 999, 999, 999, 999, 999, 999, 999, - 999, - 999, - 999, - 999,
                   999, 999, 999, 999, 999, 999, 999, 999],
          QvecAmp = [50, 0, 50, 0, 0, 0], PosLabel = [], NegLabel = []\<rparr>"
  by (simp add: CalQvec_defs example_defs noArrays_def replicate4 Let_def upt_rec)

text \<open>
  Claim C3 (no calibration from centrality 80 on, and in exactly that case flag false and
  centrality 110). At centrality exactly 80 the code applies no correction (every group holds
  four equal copies), yet it reports the centrality 80 with the flag set: line 503 tests
  \<^verbatim>\<open>cent > 80.\<close> where lines 511 and 546 test \<^verbatim>\<open>cent < 80\<close>.
\<close>

theorem C3_centrality_80_flag:
  "process exampleConfig exampleCCDB exampleHelper loadedState (exampleCollision 80) [] =
     Inr (loadedState,
          \<lparr>qVector = (80, True,
              [999, 999, 999, 999, 1, 1, 1, 1, 1, 1, 1, 1, - 999, - 999, - 999, - 999,
               999, 999, 999, 999, 999, 999, 999, 999],
              [999, 999, 999, 999, 0, 0, 0, 0, 0, 0, 0, 0, - 999, - 999, - 999, - 999,
               999, 999, 999, 999, 999, 999, 999, 999],
              [0, 100, 100, 0, 0, 0]),
            qVectorFT0C = Some (True, 999, 999, 0),
            qVectorFT0A = Some (True, 1, 0, 100),
            qVectorFT0M = Some (True, 1, 0, 100),
            qVectorFV0A = Some (True, - 999, - 999, 0),
            qVectorBPos = Some (True, 999, 999, 0, []),
            qVectorBNeg = Some (True, 999, 999, 0, [])\<rparr>)"
  by (simp add: process_defs CalQvec_defs example_defs replicate4 Let_def upt6 upt_rec)




text \<open>
  Claim C5 (track partition), as amended. A selected track is a member of the positive
  sub-event exactly when \<open>0.1 \<le> |\<eta>| \<le> 0.8\<close>, \<open>\<eta> > 0\<close> and the sub-system BPos is in
  use, and of the negative one exactly when \<open>0.1 \<le> |\<eta>| \<le> 0.8\<close>, \<open>\<eta> < 0\<close> and BNeg is in
  use: the labels and the counts of the loop are those of the tracks that satisfy \<open>inPos\<close>,
  respectively \<open>inNeg\<close>, in traversal order. No track is in both; a track that fails the
  selection or has \<open>|\<eta>| < 0.1\<close> or \<open>|\<eta>| > 0.8\<close> is in neither. When both sub-systems are
  in use, every selected track with \<open>0.1 \<le> |\<eta>| \<le> 0.8\<close> is in exactly one of them, the
  positive one for \<open>\<eta> > 0\<close> and the negative one for \<open>\<eta> < 0\<close>, and the two counts add up
  to the number of such tracks.
\<close>

theorem C5_track_partition:
  "TrkBPosLabel (trackLoop cfg nmode ts initLocals) = map globalIndex (filter (inPos cfg) ts)
   \<and> TrkBNegLabel (trackLoop cfg nmode ts initLocals) = map globalIndex (filter (inNeg cfg) ts)
   \<and> nTrkBPos (trackLoop cfg nmode ts initLocals) = length (filter (inPos cfg) ts)
   \<and> nTrkBNeg (trackLoop cfg nmode ts initLocals) = length (filter (inNeg cfg) ts)
   \<and> (\<forall>t. \<not> (inPos cfg t \<and> inNeg cfg t))
   \<and> (\<forall>t. \<not> SelTrack cfg t \<or> \<bar>eta t\<bar> < 0.1 \<or> \<bar>eta t\<bar> > 0.8 \<longrightarrow> \<not> inPos cfg t \<and> \<not> inNeg cfg t)
   \<and> (useDetector cfg ''QvectorBPoss'' \<and> useDetector cfg ''QvectorBNegs'' \<longrightarrow>
        (\<forall>t. SelTrack cfg t \<and> 0.1 \<le> \<bar>eta t\<bar> \<and> \<bar>eta t\<bar> \<le> 0.8 \<longrightarrow>
             (inPos cfg t \<longleftrightarrow> eta t > 0) \<and> (inNeg cfg t \<longleftrightarrow> eta t < 0) \<and> (inPos cfg t \<noteq> inNeg cfg t))
        \<and> nTrkBPos (trackLoop cfg nmode ts initLocals) + nTrkBNeg (trackLoop cfg nmode ts initLocals)
            = length (filter (\<lambda>t. SelTrack cfg t \<and> 0.1 \<le> \<bar>eta t\<bar> \<and> \<bar>eta t\<bar> \<le> 0.8) ts))"
proof -
  have lab: "TrkBPosLabel (trackLoop cfg nmode ts initLocals) = map globalIndex (filter (inPos cfg) ts)"
    "TrkBNegLabel (trackLoop cfg nmode ts initLocals) = map globalIndex (filter (inNeg cfg) ts)"
    "nTrkBPos (trackLoop cfg nmode ts initLocals) = length (filter (inPos cfg) ts)"
    "nTrkBNeg (trackLoop cfg nmode ts initLocals) = length (filter (inNeg cfg) ts)"
    using trackLoop_pos[of cfg nmode ts initLocals] trackLoop_neg[of cfg nmode ts initLocals]
    by (simp_all add: initLocals_def)
  have excl: "\<forall>t. \<not> (inPos cfg t \<and> inNeg cfg t)"
    by (auto simp: inPos_def inNeg_def)
  have out: "\<forall>t. \<not> SelTrack cfg t \<or> \<bar>eta t\<bar> < 0.1 \<or> \<bar>eta t\<bar> > 0.8 \<longrightarrow> \<not> inPos cfg t \<and> \<not> inNeg cfg t"
    by (auto simp: inPos_def inNeg_def)
  have both: "useDetector cfg ''QvectorBPoss'' \<and> useDetector cfg ''QvectorBNegs'' \<longrightarrow>
        (\<forall>t. SelTrack cfg t \<and> 0.1 \<le> \<bar>eta t\<bar> \<and> \<bar>eta t\<bar> \<le> 0.8 \<longrightarrow>
             (inPos cfg t \<longleftrightarrow> eta t > 0) \<and> (inNeg cfg t \<longleftrightarrow> eta t < 0) \<and> (inPos cfg t \<noteq> inNeg cfg t))
        \<and> nTrkBPos (trackLoop cfg nmode ts initLocals) + nTrkBNeg (trackLoop cfg nmode ts initLocals)
            = length (filter (\<lambda>t. SelTrack cfg t \<and> 0.1 \<le> \<bar>eta t\<bar> \<and> \<bar>eta t\<bar> \<le> 0.8) ts)"
  proof (intro impI conjI)
    assume en: "useDetector cfg ''QvectorBPoss'' \<and> useDetector cfg ''QvectorBNegs''"
    show "\<forall>t. SelTrack cfg t \<and> 0.1 \<le> \<bar>eta t\<bar> \<and> \<bar>eta t\<bar> \<le> 0.8 \<longrightarrow>
             (inPos cfg t \<longleftrightarrow> eta t > 0) \<and> (inNeg cfg t \<longleftrightarrow> eta t < 0) \<and> (inPos cfg t \<noteq> inNeg cfg t)"
      using en by (auto simp: inPos_def inNeg_def)
    have "length (filter (inPos cfg) ts) + length (filter (inNeg cfg) ts)
            = length (filter (\<lambda>t. SelTrack cfg t \<and> 0.1 \<le> \<bar>eta t\<bar> \<and> \<bar>eta t\<bar> \<le> 0.8) ts)"
      using en by (induction ts) (auto simp: inPos_def inNeg_def)
    then show "nTrkBPos (trackLoop cfg nmode ts initLocals) + nTrkBNeg (trackLoop cfg nmode ts initLocals)
            = length (filter (\<lambda>t. SelTrack cfg t \<and> 0.1 \<le> \<bar>eta t\<bar> \<and> \<bar>eta t\<bar> \<le> 0.8) ts)"
      unfolding lab .
  qed
  show ?thesis by (intro conjI) (rule lab excl out both)+
qed

text \<open>The theorem at a configuration with both sub-systems in use and three selected
  tracks, at \<open>\<eta> = 0.5\<close>, \<open>\<eta> = -0.3\<close> and \<open>\<eta> = 0.05\<close>.\<close>

theorem C5_track_partition_witness:
  "useDetector exampleConfig ''QvectorBPoss'' \<and> useDetector exampleConfig ''QvectorBNegs''
   \<and> SelTrack exampleConfig (exampleTrack 0.5 7) \<and> SelTrack exampleConfig (exampleTrack (- 0.3) 8)
   \<and> TrkBPosLabel (trackLoop exampleConfig 2 [exampleTrack 0.5 7, exampleTrack (- 0.3) 8, exampleTrack 0.05 9] initLocals) = [7]
   \<and> TrkBNegLabel (trackLoop exampleConfig 2 [exampleTrack 0.5 7, exampleTrack (- 0.3) 8, exampleTrack 0.05 9] initLocals) = [8]
   \<and> nTrkBPos (trackLoop exampleConfig 2 [exampleTrack 0.5 7, exampleTrack (- 0.3) 8, exampleTrack 0.05 9] initLocals)
       + nTrkBNeg (trackLoop exampleConfig 2 [exampleTrack 0.5 7, exampleTrack (- 0.3) 8, exampleTrack 0.05 9] initLocals) = 2"
  using C5_track_partition[of exampleConfig 2 "[exampleTrack 0.5 7, exampleTrack (- 0.3) 8, exampleTrack 0.05 9]"]
  by (simp add: exampleConfig_def exampleTrack_def SelTrack_def inPos_def inNeg_def)

text \<open>
  Claim C5 as stated fails when a track sub-system is not in use: with BPos switched off,
  a selected track at \<open>\<eta> = 0.5\<close> is a member of neither sub-event.
\<close>

theorem C5_disabled_subevent_counterexample:
  "SelTrack noBPosConfig (exampleTrack 0.5 7) \<and> 0.1 \<le> \<bar>eta (exampleTrack 0.5 7)\<bar> \<and> \<bar>eta (exampleTrack 0.5 7)\<bar> \<le> 0.8
   \<and> TrkBPosLabel (trackLoop noBPosConfig 2 [exampleTrack 0.5 7] initLocals) = []
   \<and> TrkBNegLabel (trackLoop noBPosConfig 2 [exampleTrack 0.5 7] initLocals) = []
   \<and> nTrkBPos (trackLoop noBPosConfig 2 [exampleTrack 0.5 7] initLocals) = 0
   \<and> nTrkBNeg (trackLoop noBPosConfig 2 [exampleTrack 0.5 7] initLocals) = 0"
  by (simp add: noBPosConfig_def exampleConfig_def exampleTrack_def SelTrack_def initLocals_def)

text \<open>
  Claim C6 (a harmonic without its own table and without the table of harmonic 2 is left
  uncalibrated). With no calibration histogram in the database, \<^verbatim>\<open>initCCDB\<close> stores a null
  pointer for each configured harmonic, and for an event of centrality 10 \<^verbatim>\<open>process\<close> calls
  \<^verbatim>\<open>GetBinContent\<close> through that null pointer instead of skipping the corrections.
\<close>

theorem C6_missing_tables_null_call:
  "reload exampleConfig noCalibCCDB freshState (exampleCollision 10)
     = Inr (freshState\<lparr>objQvec := [None, None], FT0RelGainConst := replicate 208 1,
                        FV0RelGainConst := replicate 48 1, runNumber := 5\<rparr>)
   \<and> process exampleConfig noCalibCCDB exampleHelper freshState (exampleCollision 10) [] = Inl NullPointer"
  by (simp add: process_defs CalQvec_defs example_defs replicate4 Let_def upt6 upt_rec)

text \<open>
  Claim C7 (gain equalisation). \<^verbatim>\<open>initCCDB\<close> leaves in \<^verbatim>\<open>FT0RelGainConst\<close> the gain table that
  the database holds for FT0 at the timestamp, and 208 ones when it holds none; in
  \<^verbatim>\<open>FV0RelGainConst\<close> the table for FV0, and 48 ones when there is none. With positive gain
  factors and an event that is well formed for the run, each of the three channel loops
  hands to \<open>SumQvectors\<close>, channel by channel, the raw amplitude divided by the relative gain
  of the channel (\<open>fedA\<close>, \<open>fedC\<close>, \<open>fedV\<close>; the C-side channel is shifted by 96): the
  amplitude handed over, times the gain of the channel, is the raw amplitude. Without a gain
  table the amplitudes handed over are the raw ones.
\<close>

theorem C7_gain_equalisation:
  assumes init: "initCCDB cfg ccdb timestamp st0 = Inr st"
    and ft0: "ft0InRange (FT0RelGainConst st) ft0" and fv0: "fv0InRange (FV0RelGainConst st) fv0"
    and pos: "gainsPositive st"
  shows "FT0RelGainConst st = (case gainFT0 ccdb timestamp of None \<Rightarrow> replicate 208 1 | Some objft0Gain \<Rightarrow> objft0Gain)
       \<and> FV0RelGainConst st = (case gainFV0 ccdb timestamp of None \<Rightarrow> replicate 48 1 | Some objfv0Gain \<Rightarrow> objfv0Gain)
       \<and> forLoop (ft0aBody h (FT0RelGainConst st) nmode ft0) [0..<length (channelA ft0)] l =
           Inr (l\<lparr>QvecDet := fst (accumulate h 0 nmode (fedA (FT0RelGainConst st) ft0) (QvecDet l, sumAmplFT0A l)),
                  sumAmplFT0A := snd (accumulate h 0 nmode (fedA (FT0RelGainConst st) ft0) (QvecDet l, sumAmplFT0A l)),
                  QvecFT0M := fst (accumulate h 0 nmode (fedA (FT0RelGainConst st) ft0) (QvecFT0M l, sumAmplFT0M l)),
                  sumAmplFT0M := snd (accumulate h 0 nmode (fedA (FT0RelGainConst st) ft0) (QvecFT0M l, sumAmplFT0M l))\<rparr>)
       \<and> forLoop (ft0cBody h (FT0RelGainConst st) nmode ft0) [0..<length (channelC ft0)] l =
           Inr (l\<lparr>QvecDet := fst (accumulate h 0 nmode (fedC (FT0RelGainConst st) ft0) (QvecDet l, sumAmplFT0C l)),
                  sumAmplFT0C := snd (accumulate h 0 nmode (fedC (FT0RelGainConst st) ft0) (QvecDet l, sumAmplFT0C l)),
                  QvecFT0M := fst (accumulate h 0 nmode (fedC (FT0RelGainConst st) ft0) (QvecFT0M l, sumAmplFT0M l)),
                  sumAmplFT0M := snd (accumulate h 0 nmode (fedC (FT0RelGainConst st) ft0) (QvecFT0M l, sumAmplFT0M l))\<rparr>)
       \<and> forLoop (fv0Body h (FV0RelGainConst st) nmode fv0) [0..<length (channel fv0)] l =
           Inr (l\<lparr>QvecDet := fst (accumulate h 1 nmode (fedV (FV0RelGainConst st) fv0) (QvecDet l, sumAmplFV0A l)),
                  sumAmplFV0A := snd (accumulate h 1 nmode (fedV (FV0RelGainConst st) fv0) (QvecDet l, sumAmplFV0A l))\<rparr>)
       \<and> length (fedA (FT0RelGainConst st) ft0) = length (channelA ft0)
       \<and> (\<forall>i<length (channelA ft0).
             fst (fedA (FT0RelGainConst st) ft0 ! i) = channelA ft0 ! i
           \<and> snd (fedA (FT0RelGainConst st) ft0 ! i) * FT0RelGainConst st ! (channelA ft0 ! i) = amplitudeA ft0 ! i)
       \<and> length (fedC (FT0RelGainConst st) ft0) = length (channelC ft0)
       \<and> (\<forall>i<length (channelC ft0).
             fst (fedC (FT0RelGainConst st) ft0 ! i) = channelC ft0 ! i + 96
           \<and> snd (fedC (FT0RelGainConst st) ft0 ! i) * FT0RelGainConst st ! (channelC ft0 ! i + 96) = amplitudeC ft0 ! i)
       \<and> length (fedV (FV0RelGainConst st) fv0) = length (channel fv0)
       \<and> (\<forall>i<length (channel fv0).
             fst (fedV (FV0RelGainConst st) fv0 ! i) = channel fv0 ! i
           \<and> snd (fedV (FV0RelGainConst st) fv0 ! i) * FV0RelGainConst st ! (channel fv0 ! i) = amplitude fv0 ! i)
       \<and> (gainFT0 ccdb timestamp = None \<longrightarrow>
             FT0RelGainConst st = replicate 208 1
           \<and> fedA (FT0RelGainConst st) ft0 = map (\<lambda>i. (channelA ft0 ! i, amplitudeA ft0 ! i)) [0..<length (channelA ft0)]
           \<and> fedC (FT0RelGainConst st) ft0 = map (\<lambda>i. (channelC ft0 ! i + 96, amplitudeC ft0 ! i)) [0..<length (channelC ft0)])
       \<and> (gainFV0 ccdb timestamp = None \<longrightarrow>
             FV0RelGainConst st = replicate 48 1
           \<and> fedV (FV0RelGainConst st) fv0 = map (\<lambda>i. (channel fv0 ! i, amplitude fv0 ! i)) [0..<length (channel fv0)])"
proof (intro conjI impI allI)
  from init show g0: "FT0RelGainConst st = (case gainFT0 ccdb timestamp of None \<Rightarrow> replicate 208 1 | Some g \<Rightarrow> g)"
    and g1: "FV0RelGainConst st = (case gainFV0 ccdb timestamp of None \<Rightarrow> replicate 48 1 | Some g \<Rightarrow> g)"
    by (auto simp: initCCDB_def split: option.splits if_splits)
  have p0: "FT0RelGainConst st ! c \<noteq> 0" if "c < length (FT0RelGainConst st)" for c
  proof -
    from that have "FT0RelGainConst st ! c \<in> set (FT0RelGainConst st)" by simp
    with pos have "0 < FT0RelGainConst st ! c" by (simp add: gainsPositive_def)
    then show ?thesis by simp
  qed
  have p1: "FV0RelGainConst st ! c \<noteq> 0" if "c < length (FV0RelGainConst st)" for c
  proof -
    from that have "FV0RelGainConst st ! c \<in> set (FV0RelGainConst st)" by simp
    with pos have "0 < FV0RelGainConst st ! c" by (simp add: gainsPositive_def)
    then show ?thesis by simp
  qed
  show "length (fedA (FT0RelGainConst st) ft0) = length (channelA ft0)"
    "length (fedC (FT0RelGainConst st) ft0) = length (channelC ft0)"
    "length (fedV (FV0RelGainConst st) fv0) = length (channel fv0)"
    by (simp_all add: fedA_def fedC_def fedV_def)
  {
    fix i assume i: "i < length (channelA ft0)"
    then show "fst (fedA (FT0RelGainConst st) ft0 ! i) = channelA ft0 ! i"
      by (simp add: fedA_def)
    from ft0 i have "channelA ft0 ! i < length (FT0RelGainConst st)"
      by (simp add: ft0InRange_def)
    from p0[OF this] i
    show "snd (fedA (FT0RelGainConst st) ft0 ! i) * FT0RelGainConst st ! (channelA ft0 ! i) = amplitudeA ft0 ! i"
      by (simp add: fedA_def)
  }
  {
    fix i assume i: "i < length (channelC ft0)"
    then show "fst (fedC (FT0RelGainConst st) ft0 ! i) = channelC ft0 ! i + 96"
      by (simp add: fedC_def)
    from ft0 i have "channelC ft0 ! i + 96 < length (FT0RelGainConst st)"
      by (simp add: ft0InRange_def)
    from p0[OF this] i
    show "snd (fedC (FT0RelGainConst st) ft0 ! i) * FT0RelGainConst st ! (channelC ft0 ! i + 96) = amplitudeC ft0 ! i"
      by (simp add: fedC_def)
  }
  {
    fix i assume i: "i < length (channel fv0)"
    then show "fst (fedV (FV0RelGainConst st) fv0 ! i) = channel fv0 ! i"
      by (simp add: fedV_def)
    from fv0 i have "channel fv0 ! i < length (FV0RelGainConst st)"
      by (simp add: fv0InRange_def)
    from p1[OF this] i
    show "snd (fedV (FV0RelGainConst st) fv0 ! i) * FV0RelGainConst st ! (channel fv0 ! i) = amplitude fv0 ! i"
      by (simp add: fedV_def)
  }
  {
    assume n: "gainFT0 ccdb timestamp = None"
    with g0 show ones: "FT0RelGainConst st = replicate 208 1" by simp
    from ft0 have a: "\<forall>c\<in>set (channelA ft0). c < 208" and c: "\<forall>c\<in>set (channelC ft0). c + 96 < 208"
      unfolding ones ft0InRange_def by simp_all
    show "fedA (FT0RelGainConst st) ft0 = map (\<lambda>i. (channelA ft0 ! i, amplitudeA ft0 ! i)) [0..<length (channelA ft0)]"
      unfolding ones fedA_def using a by simp
    show "fedC (FT0RelGainConst st) ft0 = map (\<lambda>i. (channelC ft0 ! i + 96, amplitudeC ft0 ! i)) [0..<length (channelC ft0)]"
      unfolding ones fedC_def using c by simp
  }
  {
    assume n: "gainFV0 ccdb timestamp = None"
    with g1 show ones: "FV0RelGainConst st = replicate 48 1" by simp
    from fv0 have a: "\<forall>c\<in>set (channel fv0). c < 48"
      unfolding ones fv0InRange_def by simp_all
    show "fedV (FV0RelGainConst st) fv0 = map (\<lambda>i. (channel fv0 ! i, amplitude fv0 ! i)) [0..<length (channel fv0)]"
      unfolding ones fedV_def using a by simp
  }
qed (rule ft0aLoop[OF ft0] ft0cLoop[OF ft0] fv0Loop[OF fv0])+

text \<open>The theorem at a database whose gain table for FT0 holds the factor 2 and that has no
  table for FV0, with one FT0 channel of amplitude 100 and one FV0 channel of amplitude 7:
  the A-side loop accumulates the amplitude 50.\<close>

theorem C7_gain_equalisation_witness:
  "initCCDB exampleConfig gainCCDB 0 freshState
     = Inr (freshState\<lparr>objQvec := [Some exampleHist, Some exampleHist],
                        FT0RelGainConst := replicate 208 2, FV0RelGainConst := replicate 48 1\<rparr>)
   \<and> ft0InRange (replicate 208 2) exampleFT0 \<and> fv0InRange (replicate 48 1) exampleFV0
   \<and> gainsPositive (freshState\<lparr>objQvec := [Some exampleHist, Some exampleHist],
                        FT0RelGainConst := replicate 208 2, FV0RelGainConst := replicate 48 1\<rparr>)
   \<and> gainFT0 gainCCDB 0 = Some (replicate 208 2) \<and> gainFV0 gainCCDB 0 = None
   \<and> fedA (replicate 208 2) exampleFT0 = [(0, 50)]
   \<and> fedC (replicate 208 2) exampleFT0 = []
   \<and> fedV (replicate 48 1) exampleFV0 = [(3, 7)]
   \<and> forLoop (ft0aBody exampleHelper (replicate 208 2) 2 exampleFT0) [0..<length (channelA exampleFT0)] initLocals
       = Inr (initLocals\<lparr>QvecDet := 50, sumAmplFT0A := 50, QvecFT0M := 50, sumAmplFT0M := 50\<rparr>)"
proof -
  let ?st = "freshState\<lparr>objQvec := [Some exampleHist, Some exampleHist],
                        FT0RelGainConst := replicate 208 2, FV0RelGainConst := replicate 48 1\<rparr>"
  have i: "initCCDB exampleConfig gainCCDB 0 freshState = Inr ?st"
    by (simp add: initCCDB_def exampleConfig_def exampleCCDB_def gainCCDB_def)
  have a: "ft0InRange (FT0RelGainConst ?st) exampleFT0"
    by (simp add: ft0InRange_def exampleFT0_def)
  have v: "fv0InRange (FV0RelGainConst ?st) exampleFV0"
    by (simp add: fv0InRange_def exampleFV0_def)
  have p: "gainsPositive ?st"
    by (simp add: gainsPositive_def)
  have n: "gainFT0 gainCCDB 0 = Some (replicate 208 2)" "gainFV0 gainCCDB 0 = None"
    by (simp_all add: exampleCCDB_def gainCCDB_def)
  have fa: "fedA (replicate 208 2) exampleFT0 = [(0, 50)]"
    and fc: "fedC (replicate 208 2) exampleFT0 = []"
    and fv: "fedV (replicate 48 1) exampleFV0 = [(3, 7)]"
    by (simp_all add: fedA_def fedC_def fedV_def exampleFT0_def exampleFV0_def)
  from C7_gain_equalisation[OF i a v p, where h=exampleHelper and nmode=2 and l=initLocals] i a v p n
  show ?thesis
    by (simp add: fa fc fv accumulate_def exampleHelper_def specSumQvectors_def initLocals_def)
qed

text \<open>
  Claim C8 (layout of the vectors). For an event that is well formed for the run, one call
  of \<^verbatim>\<open>CalQvec\<close> returns and appends 24 entries to the real and to the imaginary vector,
  four equal copies for each sub-system in the order FT0C, FT0A, FT0M, FV0A, BPos, BNeg, and
  6 entries to the amplitude vector in the same order. Whenever \<^verbatim>\<open>process\<close> returns, the row
  of each sub-system table holds the element at offset 3 of the sub-system's group.
\<close>

theorem C8_layout:
  assumes "inRange st coll"
  shows "(\<exists>l a'. CalQvecLocals cfg h st nmode coll tracks = Inr l
            \<and> CalQvec cfg h st nmode coll tracks a = Inr a'
            \<and> QvecRe a' = QvecRe a @ concat (map (\<lambda>q. replicate 4 (fst q)) (sixQ l))
            \<and> QvecIm a' = QvecIm a @ concat (map (\<lambda>q. replicate 4 (snd q)) (sixQ l))
            \<and> QvecAmp a' = QvecAmp a @ [sumAmplFT0C l, sumAmplFT0A l, sumAmplFT0M l, sumAmplFV0A l,
                                          real (nTrkBPos l), real (nTrkBNeg l)]
            \<and> length (QvecRe a') = length (QvecRe a) + 24
            \<and> length (QvecIm a') = length (QvecIm a) + 24
            \<and> length (QvecAmp a') = length (QvecAmp a) + 6)
       \<and> (\<forall>ccdb st0 T. process cfg ccdb h st0 coll tracks = Inr (st, T) \<longrightarrow> fourthCopyEmitted cfg T)"
proof
  from CalQvecLocals_returns[OF assms] obtain l where
    l: "CalQvecLocals cfg h st nmode coll tracks = Inr l" by blast
  then have c: "CalQvec cfg h st nmode coll tracks a = Inr (pushQvec l a)"
    by (simp add: CalQvec_Inr)
  have "QvecRe (pushQvec l a) = QvecRe a @ concat (map (\<lambda>q. replicate 4 (fst q)) (sixQ l))"
    "QvecIm (pushQvec l a) = QvecIm a @ concat (map (\<lambda>q. replicate 4 (snd q)) (sixQ l))"
    "QvecAmp (pushQvec l a) = QvecAmp a @ [sumAmplFT0C l, sumAmplFT0A l, sumAmplFT0M l, sumAmplFV0A l,
                                          real (nTrkBPos l), real (nTrkBNeg l)]"
    by (simp_all add: pushQvec_def sixQ_def)
  with l c pushQvec_length[of l a]
  show "\<exists>l a'. CalQvecLocals cfg h st nmode coll tracks = Inr l
            \<and> CalQvec cfg h st nmode coll tracks a = Inr a'
            \<and> QvecRe a' = QvecRe a @ concat (map (\<lambda>q. replicate 4 (fst q)) (sixQ l))
            \<and> QvecIm a' = QvecIm a @ concat (map (\<lambda>q. replicate 4 (snd q)) (sixQ l))
            \<and> QvecAmp a' = QvecAmp a @ [sumAmplFT0C l, sumAmplFT0A l, sumAmplFT0M l, sumAmplFV0A l,
                                          real (nTrkBPos l), real (nTrkBNeg l)]
            \<and> length (QvecRe a') = length (QvecRe a) + 24
            \<and> length (QvecIm a') = length (QvecIm a) + 24
            \<and> length (QvecAmp a') = length (QvecAmp a) + 6"
    by blast
  show "\<forall>ccdb st0 T. process cfg ccdb h st0 coll tracks = Inr (st, T) \<longrightarrow> fourthCopyEmitted cfg T"
    using fourthCopy_process by blast
qed

text \<open>The theorem at an event with one A-side channel, for harmonic 3 and for the rows of
  the event.\<close>

theorem C8_layout_witness:
  "inRange loadedState (exampleCollision 10)
   \<and> (\<exists>l a'. CalQvecLocals exampleConfig exampleHelper loadedState 3 (exampleCollision 10) [] = Inr l
         \<and> CalQvec exampleConfig exampleHelper loadedState 3 (exampleCollision 10) [] noArrays = Inr a'
         \<and> length (QvecRe a') = 24 \<and> length (QvecIm a') = 24 \<and> length (QvecAmp a') = 6)
   \<and> (\<exists>T. process exampleConfig exampleCCDB exampleHelper loadedState (exampleCollision 10) [] = Inr (loadedState, T)
         \<and> fourthCopyEmitted exampleConfig T)"
proof -
  have rl: "reload exampleConfig exampleCCDB loadedState (exampleCollision 10) = Inr loadedState"
    by (simp add: reload_def loadedState_def exampleCollision_def)
  have tabs: "length (objQvec loadedState) = length (cfgnMods exampleConfig)" "cfgnMods exampleConfig \<noteq> []"
    "\<forall>p\<in>set (objQvec loadedState). p \<noteq> None"
    by (simp_all add: loadedState_def exampleConfig_def)
  have e: "cfgCentEsti exampleConfig < 4" by (simp add: exampleConfig_def)
  from process_returns[OF rl inRange_example e tabs, of exampleHelper "[]"]
  obtain T where T: "process exampleConfig exampleCCDB exampleHelper loadedState (exampleCollision 10) [] = Inr (loadedState, T)"
    by blast
  from C8_layout[OF inRange_example[of 10], where cfg=exampleConfig and h=exampleHelper and nmode=3 and tracks="[]" and a=noArrays]
  show ?thesis
    using inRange_example[of 10] T by (fastforce simp: noArrays_def)
qed

text \<open>
  Claim C9 (FT0M takes a side only when the side's own sub-system is in use). For an event
  with an FT0 signal that is well formed for the run, and FT0M in use, the FT0M amplitude sum
  and Q-vector are those accumulated over \<open>fedM\<close>: the A-side channels if FT0A is in use,
  followed by the C-side channels if FT0C is in use. With FT0A switched off only the C side
  contributes, with FT0C switched off only the A side, with both switched off nothing.
\<close>

theorem C9_FT0M_enabled_sides:
  assumes "foundFT0 coll = Some ft0" and "useDetector cfg ''QvectorFT0Ms''" and "inRange st coll"
  shows "\<exists>l. CalQvecLocals cfg h st nmode coll tracks = Inr l
     \<and> sumAmplFT0M l = snd (accumulate h 0 nmode (fedM cfg (FT0RelGainConst st) ft0) (0, 0))
     \<and> qVectFT0M l = normalised (accumulate h 0 nmode (fedM cfg (FT0RelGainConst st) ft0) (0, 0)) (999, 999)
     \<and> fedM cfg (FT0RelGainConst st) ft0 =
          (if useDetector cfg ''QvectorFT0As''
           then if useDetector cfg ''QvectorFT0Cs''
                then fedA (FT0RelGainConst st) ft0 @ fedC (FT0RelGainConst st) ft0
                else fedA (FT0RelGainConst st) ft0
           else if useDetector cfg ''QvectorFT0Cs''
                then fedC (FT0RelGainConst st) ft0
                else [])"
proof -
  from assms have r: "ft0InRange (FT0RelGainConst st) ft0"
    and v: "case foundFV0 coll of None \<Rightarrow> True | Some fv0 \<Rightarrow> fv0InRange (FV0RelGainConst st) fv0"
    by (simp_all add: inRange_def)
  from assms(2) have u: "useDetector cfg ''QvectorFT0As'' \<or> useDetector cfg ''QvectorFT0Cs'' \<or> useDetector cfg ''QvectorFT0Ms''"
    by simp
  from ft0Block_found[OF assms(1) u r, where h=h and nmode=nmode] assms(2)
  obtain l1 where 1: "ft0Block cfg h st nmode coll initLocals = Inr l1"
    and m1: "qVectFT0M l1 = normalised (accumulate h 0 nmode (fedM cfg (FT0RelGainConst st) ft0) (0, 0)) (999, 999)"
       "sumAmplFT0M l1 = snd (accumulate h 0 nmode (fedM cfg (FT0RelGainConst st) ft0) (0, 0))"
    by auto
  from fv0Block_keeps[OF v, where cfg=cfg and h=h and nmode=nmode and l=l1]
  obtain l2 where 2: "fv0Block cfg h st nmode coll l1 = Inr l2"
    and m2: "qVectFT0M l2 = qVectFT0M l1" "sumAmplFT0M l2 = sumAmplFT0M l1"
    by blast
  have "CalQvecLocals cfg h st nmode coll tracks = Inr (normTracks (trackLoop cfg nmode tracks l2))"
    by (simp add: CalQvecLocals_def 1 2)
  moreover have "sumAmplFT0M (normTracks (trackLoop cfg nmode tracks l2)) = sumAmplFT0M l1"
    "qVectFT0M (normTracks (trackLoop cfg nmode tracks l2)) = qVectFT0M l1"
    using normTracks_keeps[of "trackLoop cfg nmode tracks l2"] trackLoop_keeps[of cfg nmode tracks l2] m2
    by simp_all
  ultimately show ?thesis
    using m1 by (simp add: fedM_def)
qed

text \<open>The theorem at an event whose only channel is on the A side, with FT0A switched off:
  the FT0M sum is 0.\<close>

theorem C9_FT0M_enabled_sides_witness:
  "foundFT0 (exampleCollision 10) = Some exampleFT0
   \<and> useDetector (exampleConfig\<lparr>useDetector := (\<lambda>name. name \<noteq> ''QvectorFT0As'')\<rparr>) ''QvectorFT0Ms''
   \<and> inRange loadedState (exampleCollision 10)
   \<and> (\<exists>l. CalQvecLocals (exampleConfig\<lparr>useDetector := (\<lambda>name. name \<noteq> ''QvectorFT0As'')\<rparr>) exampleHelper
             loadedState 2 (exampleCollision 10) [] = Inr l
         \<and> sumAmplFT0M l = 0 \<and> qVectFT0M l = (999, 999))"
proof -
  let ?cfg = "exampleConfig\<lparr>useDetector := (\<lambda>name. name \<noteq> ''QvectorFT0As'')\<rparr>"
  have f: "foundFT0 (exampleCollision 10) = Some exampleFT0"
    by (simp add: exampleCollision_def)
  have u: "useDetector ?cfg ''QvectorFT0Ms''"
    by simp
  have fed: "fedM ?cfg (FT0RelGainConst loadedState) exampleFT0 = []"
    by (simp add: fedM_def fedC_def exampleFT0_def)
  from C9_FT0M_enabled_sides[OF f u inRange_example, of exampleHelper 2 "[]"]
  show ?thesis
    using f u inRange_example[of 10] unfolding fed by (auto simp: normalised_def)
qed

text \<open>
  Claim C10 (weights loader). When the loader has an open file or uses the database (it
  stops with a fatal error otherwise), \<^verbatim>\<open>loadWeights\<close> returns one row for each track, in
  the order of the tracks; the phi weight is the content of the histogram at the track's
  coordinates, and 1 when no histogram is loaded; the efficiency weight is always 1.
\<close>

theorem C10_weight_rows:
  assumes "pf st \<noteq> None \<or> useCCDB st"
  shows "\<exists>st' rows. loadWeights cfg ccdb st collision tracks = Inr (st', rows)
     \<and> newRun cfg ccdb collision st = Inr st'
     \<and> length rows = length tracks
     \<and> rows = map (\<lambda>track. (case ph st' of
                       Some hist \<Rightarrow> hist [multiplicity collision, 0, trackPhi track, trackEta track, posZ collision]
                     | None \<Rightarrow> 1, 1)) tracks
     \<and> (ph st' = None \<longrightarrow> rows = map (\<lambda>track. (1, 1)) tracks)
     \<and> map snd rows = map (\<lambda>track. 1) tracks"
proof -
  from newRun_returns[OF assms] obtain st' where n: "newRun cfg ccdb collision st = Inr st'" by blast
  have l: "loadWeights cfg ccdb st collision tracks = Inr (st', weightRows st' collision tracks)"
    using assms n by (auto simp: loadWeights_def)
  show ?thesis
    unfolding l n by (auto simp: weightRows_map)
qed

text \<open>The theorem at a loader with a local file, for a run without histogram and for a run
  with the constant histogram 2.\<close>

theorem C10_weight_rows_witness:
  "pf exampleLoader \<noteq> None
   \<and> (\<exists>st'. loadWeights \<lparr>cfgForRunNumber = False\<rparr> exampleWeightsCCDB exampleLoader (exampleJCollision 8)
           [\<lparr>trackPhi = 1, trackEta = 0.5\<rparr>, \<lparr>trackPhi = 2, trackEta = 0.1\<rparr>] = Inr (st', [(1, 1), (1, 1)]))
   \<and> (\<exists>st'. loadWeights \<lparr>cfgForRunNumber = False\<rparr> exampleWeightsCCDB exampleLoader (exampleJCollision 7)
           [\<lparr>trackPhi = 1, trackEta = 0.5\<rparr>, \<lparr>trackPhi = 2, trackEta = 0.1\<rparr>] = Inr (st', [(2, 1), (2, 1)]))"
proof -
  have h: "pf exampleLoader \<noteq> None \<or> useCCDB exampleLoader"
    by (simp add: exampleLoader_def)
  have n8: "newRun \<lparr>cfgForRunNumber = False\<rparr> exampleWeightsCCDB (exampleJCollision 8) exampleLoader
      = Inr (exampleLoader\<lparr>loaderRunNumber := 8\<rparr>)"
    by (simp add: newRun_def exampleLoader_def exampleJCollision_def Let_def)
  have n7: "newRun \<lparr>cfgForRunNumber = False\<rparr> exampleWeightsCCDB (exampleJCollision 7) exampleLoader
      = Inr (exampleLoader\<lparr>ph := Some (\<lambda>coords. 2), loaderRunNumber := 7\<rparr>)"
    by (simp add: newRun_def exampleLoader_def exampleJCollision_def Let_def)
  from C10_weight_rows[OF h, of "\<lparr>cfgForRunNumber = False\<rparr>" exampleWeightsCCDB "exampleJCollision 8"
      "[\<lparr>trackPhi = 1, trackEta = 0.5\<rparr>, \<lparr>trackPhi = 2, trackEta = 0.1\<rparr>]"]
    C10_weight_rows[OF h, of "\<lparr>cfgForRunNumber = False\<rparr>" exampleWeightsCCDB "exampleJCollision 7"
      "[\<lparr>trackPhi = 1, trackEta = 0.5\<rparr>, \<lparr>trackPhi = 2, trackEta = 0.1\<rparr>]"]
  show ?thesis
    using h unfolding n8 n7 by (auto simp: exampleLoader_def)
qed

end
